theory Spec2Isabelle
  imports Complex_Main
begin

section \<open>Python values and errors\<close>

text \<open>
  Every exception the modelled functions can raise is a constructor of \<open>py_error\<close>;
  a function that may raise returns \<open>py_error + 'a\<close> with \<open>Inl\<close> for the exception.
\<close>

datatype py_error = ValueError | KeyError | IndexError | AssertionError | NameError
  | TypeError | OSError

text \<open>
  \<^verbatim>\<open>xs.index(x)\<close> of a Python list: the position of the first element equal to \<open>x\<close>,
  \<^verbatim>\<open>ValueError\<close> when there is none.
\<close>

fun list_index :: "'a list \<Rightarrow> 'a \<Rightarrow> py_error + nat" where
  "list_index [] x = Inl ValueError"
| "list_index (y # ys) x =
     (if y = x then Inr 0
      else (case list_index ys x of Inl e \<Rightarrow> Inl e | Inr i \<Rightarrow> Inr (Suc i)))"

section \<open>SMILES filter (dglchem/utils/data.py, filter_smiles)\<close>

text \<open>
  RDKit is an external library. Of a parsed molecule the filter reads two things only:
  \<^verbatim>\<open>mol.GetNumHeavyAtoms()\<close> and the symbols \<^verbatim>\<open>atoms.GetSymbol()\<close> of
  \<^verbatim>\<open>mol.GetAtoms()\<close>, in order. \<^verbatim>\<open>Chem.MolFromSmiles\<close> is a parameter of
  the model: a function from strings to molecules, \<open>None\<close> for a string that does
  not parse. Whatever else RDKit knows of a molecule (the featurizers read it) is the
  extension \<open>'z\<close> of the record.
\<close>

record mol =
  NumHeavyAtoms :: nat
  AtomSymbols :: "string list"

type_synonym 'z smiles_parser = "string \<Rightarrow> 'z mol_scheme option"

definition default_allowed_atoms :: "string list" where
  "default_allowed_atoms =
     [''B'', ''C'', ''N'', ''O'', ''F'', ''Si'', ''P'',
      ''S'', ''Cl'', ''As'', ''Se'', ''Br'', ''Te'', ''I'', ''At'']"

text \<open>
  The body of the loop \<^verbatim>\<open>for element in smiles\<close>: the indices it appends to
  \<^verbatim>\<open>indices_to_drop\<close> for one element. Each index is
  \<^verbatim>\<open>list(df.smiles).index(element)\<close>, computed in the column \<open>col\<close>; the
  inner loop over the atoms appends it once for every atom outside the allow-list.
\<close>

definition drops_of_element ::
  "'z smiles_parser \<Rightarrow> string list \<Rightarrow> string list \<Rightarrow> string \<Rightarrow> py_error + nat list" where
  "drops_of_element MolFromSmiles allowed_atoms col element =
     (case MolFromSmiles element of
        None \<Rightarrow>
          (case list_index col element of Inl e \<Rightarrow> Inl e | Inr i \<Rightarrow> Inr [i])
      | Some m \<Rightarrow>
          if NumHeavyAtoms m < 2 then
            (case list_index col element of Inl e \<Rightarrow> Inl e | Inr i \<Rightarrow> Inr [i])
          else if list_all (\<lambda>a. a \<in> set allowed_atoms) (AtomSymbols m) then Inr []
          else
            (case list_index col element of
               Inl e \<Rightarrow> Inl e
             | Inr i \<Rightarrow> Inr (map (\<lambda>a. i) (filter (\<lambda>a. a \<notin> set allowed_atoms) (AtomSymbols m)))))"

fun collect_drops ::
  "'z smiles_parser \<Rightarrow> string list \<Rightarrow> string list \<Rightarrow> string list \<Rightarrow> nat list
     \<Rightarrow> py_error + nat list" where
  "collect_drops MolFromSmiles allowed_atoms col [] indices_to_drop = Inr indices_to_drop"
| "collect_drops MolFromSmiles allowed_atoms col (element # rest) indices_to_drop =
     (case drops_of_element MolFromSmiles allowed_atoms col element of
        Inl e \<Rightarrow> Inl e
      | Inr new \<Rightarrow>
          collect_drops MolFromSmiles allowed_atoms col rest (indices_to_drop @ new))"

text \<open>
  \<^verbatim>\<open>df.drop(labels)\<close> on a frame with the default index \<open>0..n-1\<close>: the rows whose
  label is not listed, in order; \<^verbatim>\<open>KeyError\<close> when a listed label is not a row.
\<close>

definition df_drop :: "'r list \<Rightarrow> nat list \<Rightarrow> py_error + 'r list" where
  "df_drop rows labels =
     (if list_ex (\<lambda>i. length rows \<le> i) labels then Inl KeyError
      else Inr (map snd (filter (\<lambda>(i, r). i \<notin> set labels) (enumerate 0 rows))))"

text \<open>
  \<^verbatim>\<open>pd.DataFrame({'smiles': smiles, 'target': target})\<close> raises
  \<^verbatim>\<open>ValueError\<close> when the two columns differ in length; its rows are the pairs.
\<close>

definition filter_smiles ::
  "'z smiles_parser \<Rightarrow> string list \<Rightarrow> 't list \<Rightarrow> string list option
     \<Rightarrow> py_error + (string list \<times> 't list)" where
  "filter_smiles MolFromSmiles smiles target allowed_atoms_arg =
     (let allowed_atoms =
            (case allowed_atoms_arg of None \<Rightarrow> default_allowed_atoms | Some a \<Rightarrow> a)
      in if length smiles \<noteq> length target then Inl ValueError
         else
           (case collect_drops MolFromSmiles allowed_atoms smiles smiles [] of
              Inl e \<Rightarrow> Inl e
            | Inr indices_to_drop \<Rightarrow>
                (case df_drop (zip smiles target) indices_to_drop of
                   Inl e \<Rightarrow> Inl e
                 | Inr df \<Rightarrow> Inr (map fst df, map snd df))))"

text \<open>
  The three conditions of the specification on one entry: the string parses, the molecule
  has at least two heavy atoms, every atom symbol is in the allow-list.
\<close>

definition entry_ok :: "'z smiles_parser \<Rightarrow> string list \<Rightarrow> string \<Rightarrow> bool" where
  "entry_ok MolFromSmiles allowed_atoms s =
     (case MolFromSmiles s of
        None \<Rightarrow> False
      | Some m \<Rightarrow>
          2 \<le> NumHeavyAtoms m \<and> list_all (\<lambda>a. a \<in> set allowed_atoms) (AtomSymbols m))"

text \<open>
  What RDKit returns for a few strings, used to run the filter on concrete inputs:
  methane \<open>C\<close> (one heavy atom), ethane \<open>CC\<close>, ethanol \<open>CCO\<close>, sodium chloride
  \<open>[Na+].[Cl-]\<close>; every other string is taken not to parse.
\<close>

definition rdkit_sample :: "unit smiles_parser" where
  "rdkit_sample =
     map_of
      [(''C'', \<lparr>NumHeavyAtoms = 1, AtomSymbols = [''C'']\<rparr>),
       (''CC'', \<lparr>NumHeavyAtoms = 2, AtomSymbols = [''C'', ''C'']\<rparr>),
       (''CCO'', \<lparr>NumHeavyAtoms = 3, AtomSymbols = [''C'', ''C'', ''O'']\<rparr>),
       (''[Na+].[Cl-]'', \<lparr>NumHeavyAtoms = 2, AtomSymbols = [''Na'', ''Cl'']\<rparr>)]"

section \<open>Training loop (grape/utils/model_train_test.py, train_model)\<close>

text \<open>
  The float values the bookkeeping of the loop compares: a finite value, \<^verbatim>\<open>float('inf')\<close>
  (the initial \<^verbatim>\<open>loss_cut\<close>) and \<^verbatim>\<open>nan\<close> (what \<^verbatim>\<open>np.mean\<close> returns for a
  loader with no batch). The loss of one mini-batch is idealised as a real number.
  \<^verbatim>\<open><\<close> on floats is false whenever an operand is \<^verbatim>\<open>nan\<close>.
\<close>

datatype np_float = NaN | Fin real | PInf

fun np_mean :: "real list \<Rightarrow> np_float" where
  "np_mean [] = NaN"
| "np_mean (x # xs) = Fin (sum_list (x # xs) / real (length (x # xs)))"

fun np_less :: "np_float \<Rightarrow> np_float \<Rightarrow> bool" where
  "np_less (Fin a) (Fin b) = (a < b)"
| "np_less (Fin a) PInf = True"
| "np_less _ _ = False"

text \<open>
  The variables of \<^verbatim>\<open>train_model\<close> that change from epoch to epoch. \<open>model\<close> stands
  for everything the calls \<^verbatim>\<open>model(batch)\<close>, \<^verbatim>\<open>loss_train.backward()\<close> and
  \<^verbatim>\<open>optimizer.step()\<close> read and update (the parameters and the optimizer's state).
\<close>

record 'm train_state =
  model :: 'm
  train_loss :: "np_float list"
  val_loss :: "np_float list"
  loss_cut :: np_float
  counter :: int

text \<open>
  One pass over a data loader, \<^verbatim>\<open>for idx, batch in enumerate(loader)\<close>: \<open>step\<close> is the
  body of the loop, returning the loss stored in \<^verbatim>\<open>temp[idx]\<close> and the updated model.
  The result is the filled array \<^verbatim>\<open>temp\<close> (of length \<^verbatim>\<open>len(loader)\<close>) and the model.
\<close>

fun run_batches :: "('m \<Rightarrow> 'b \<Rightarrow> real \<times> 'm) \<Rightarrow> 'm \<Rightarrow> 'b list \<Rightarrow> real list \<times> 'm" where
  "run_batches step m [] = ([], m)"
| "run_batches step m (batch # rest) =
     (let (loss, m') = step m batch;
          (temp, m'') = run_batches step m' rest
      in (loss # temp, m''))"

text \<open>The body of \<^verbatim>\<open>for i in range(epochs)\<close> up to the early-stopping test.\<close>

definition epoch_body ::
  "('m \<Rightarrow> 'b \<Rightarrow> real \<times> 'm) \<Rightarrow> ('m \<Rightarrow> 'b \<Rightarrow> real \<times> 'm) \<Rightarrow> 'b list \<Rightarrow> 'b list
     \<Rightarrow> 'm train_state \<Rightarrow> 'm train_state" where
  "epoch_body train_step val_step train_data_loader val_data_loader st =
     (let (temp, m1) = run_batches train_step (model st) train_data_loader;
          loss_train = np_mean temp;
          (temp', m2) = run_batches val_step m1 val_data_loader;
          loss_val = np_mean temp'
      in if np_less loss_val (loss_cut st)
         then \<lparr>model = m2, train_loss = train_loss st @ [loss_train],
               val_loss = val_loss st @ [loss_val], loss_cut = loss_val, counter = 0\<rparr>
         else \<lparr>model = m2, train_loss = train_loss st @ [loss_train],
               val_loss = val_loss st @ [loss_val], loss_cut = loss_cut st,
               counter = counter st + 1\<rparr>)"

text \<open>
  The loop \<^verbatim>\<open>for i in range(epochs)\<close> with its \<^verbatim>\<open>break\<close>; the \<open>nat\<close> argument is
  the number of epochs still to run.
\<close>

fun epoch_loop ::
  "('m train_state \<Rightarrow> 'm train_state) \<Rightarrow> bool \<Rightarrow> int \<Rightarrow> nat \<Rightarrow> 'm train_state \<Rightarrow> 'm train_state" where
  "epoch_loop body early_stopping patience 0 st = st"
| "epoch_loop body early_stopping patience (Suc n) st =
     (let st' = body st
      in if counter st' = patience \<and> early_stopping then st'
         else epoch_loop body early_stopping patience n st')"

definition init_state :: "'m \<Rightarrow> 'm train_state" where
  "init_state m = \<lparr>model = m, train_loss = [], val_loss = [], loss_cut = PInf, counter = 0\<rparr>"

definition train_run ::
  "('m \<Rightarrow> 'b \<Rightarrow> real \<times> 'm) \<Rightarrow> ('m \<Rightarrow> 'b \<Rightarrow> real \<times> 'm) \<Rightarrow> 'm \<Rightarrow> 'b list \<Rightarrow> 'b list
     \<Rightarrow> int \<Rightarrow> bool \<Rightarrow> int \<Rightarrow> 'm train_state" where
  "train_run train_step val_step m train_data_loader val_data_loader epochs early_stopping patience =
     epoch_loop (epoch_body train_step val_step train_data_loader val_data_loader)
       early_stopping patience (nat epochs) (init_state m)"

definition train_model ::
  "('m \<Rightarrow> 'b \<Rightarrow> real \<times> 'm) \<Rightarrow> ('m \<Rightarrow> 'b \<Rightarrow> real \<times> 'm) \<Rightarrow> 'm \<Rightarrow> 'b list \<Rightarrow> 'b list
     \<Rightarrow> int \<Rightarrow> bool \<Rightarrow> int \<Rightarrow> np_float list \<times> np_float list" where
  "train_model train_step val_step m train_data_loader val_data_loader epochs early_stopping patience =
     (let st = train_run train_step val_step m train_data_loader val_data_loader
                 epochs early_stopping patience
      in (train_loss st, val_loss st))"

text \<open>
  The state after \<open>k\<close> epochs run one after the other with no early-stopping test;
  the theorems compare the loop with it.
\<close>

definition state_after ::
  "('m \<Rightarrow> 'b \<Rightarrow> real \<times> 'm) \<Rightarrow> ('m \<Rightarrow> 'b \<Rightarrow> real \<times> 'm) \<Rightarrow> 'm \<Rightarrow> 'b list \<Rightarrow> 'b list
     \<Rightarrow> nat \<Rightarrow> 'm train_state" where
  "state_after train_step val_step m train_data_loader val_data_loader k =
     ((epoch_body train_step val_step train_data_loader val_data_loader) ^^ k) (init_state m)"

text \<open>
  The minimum of the validation losses seen: the least finite value of the list,
  \<^verbatim>\<open>inf\<close> when there is none.
\<close>

fun fin_values :: "np_float list \<Rightarrow> real list" where
  "fin_values [] = []"
| "fin_values (Fin r # vs) = r # fin_values vs"
| "fin_values (v # vs) = fin_values vs"

definition minimum_seen :: "np_float list \<Rightarrow> np_float" where
  "minimum_seen vs = (if fin_values vs = [] then PInf else Fin (Min (set (fin_values vs))))"

section \<open>Ensemble physics layer (grape_chem/models/coupled_ensemble_module.py)\<close>

text \<open>
  Tensor elements are idealised as real numbers, and the layer is modelled on one element
  of the batch (every operation of \<^verbatim>\<open>CpLayer.forward\<close> is elementwise). A division
  whose divisor is zero has no real value: PyTorch returns \<^verbatim>\<open>inf\<close> or \<^verbatim>\<open>nan\<close> there
  and raises nothing. \<open>torch_div\<close> returns \<open>None\<close> for it, and a forward pass in which
  some division has a zero divisor is \<open>None\<close>.
\<close>

definition epsilon :: real where
  "epsilon = 1 / 10000000"

definition torch_div :: "real \<Rightarrow> real \<Rightarrow> real option" where
  "torch_div a b = (if b = 0 then None else Some (a / b))"

text \<open>\<^verbatim>\<open>torch.clamp(x, min=lo, max=hi)\<close> is \<open>min (max x lo) hi\<close>; with \<^verbatim>\<open>max\<close> alone, \<open>min x hi\<close>.\<close>

definition torch_clamp :: "real \<Rightarrow> real \<Rightarrow> real \<Rightarrow> real" where
  "torch_clamp x lo hi = min (max x lo) hi"

definition torch_clamp_max :: "real \<Rightarrow> real \<Rightarrow> real" where
  "torch_clamp_max x hi = min x hi"

text \<open>\<^verbatim>\<open>torch.where(cond, a, b)\<close> on one element.\<close>

definition torch_where :: "bool \<Rightarrow> real \<Rightarrow> real \<Rightarrow> real" where
  "torch_where c a b = (if c then a else b)"

definition safe_sinh :: "real \<Rightarrow> real" where
  "safe_sinh x =
     torch_where (\<bar>x\<bar> \<le> 20) (sinh x) (sgn x * (exp (torch_clamp_max \<bar>x\<bar> 88) / 2))"

definition safe_cosh :: "real \<Rightarrow> real" where
  "safe_cosh x =
     torch_where (\<bar>x\<bar> \<le> 20) (cosh x) (exp (torch_clamp_max \<bar>x\<bar> 88) / 2)"

definition CpLayer_forward ::
  "real \<Rightarrow> real \<Rightarrow> real \<Rightarrow> real \<Rightarrow> real \<Rightarrow> real \<Rightarrow> real option" where
  "CpLayer_forward B C D E F T0 =
     (let T = T0 + epsilon
      in case torch_div D T of
           None \<Rightarrow> None
         | Some d \<Rightarrow>
        (case torch_div F T of
           None \<Rightarrow> None
         | Some f \<Rightarrow>
        (let D_over_T = torch_clamp d (- 20) 20;
             F_over_T = torch_clamp f (- 20) 20;
             sinh_term = safe_sinh D_over_T + epsilon;
             cosh_term = safe_cosh F_over_T + epsilon
         in case torch_div D_over_T sinh_term of
              None \<Rightarrow> None
            | Some a \<Rightarrow>
           (case torch_div F_over_T cosh_term of
              None \<Rightarrow> None
            | Some b \<Rightarrow> Some (B + C * (a ^ 2) + E * (b ^ 2))))))"

text \<open>
  \<^verbatim>\<open>GroupGAT_Ensemble.forward\<close>. The sub-models (\<^verbatim>\<open>GroupGAT.GCGAT_v4pro\<close>) are not part
  of the sources: \<open>models\<close> maps each model name of \<^verbatim>\<open>self.models\<close> to the function from
  the input to that model's output, and \<open>global_feats\<close> reads the temperature of the input.
  \<^verbatim>\<open>outputs['A']\<close> raises \<^verbatim>\<open>KeyError\<close> when no model has that name.
\<close>

definition GroupGAT_Ensemble_forward ::
  "(string \<rightharpoonup> ('d \<Rightarrow> real)) \<Rightarrow> ('d \<Rightarrow> real) \<Rightarrow> 'd \<Rightarrow> py_error + real option" where
  "GroupGAT_Ensemble_forward models global_feats data =
     (let T = global_feats data;
          outputs = (\<lambda>model_name. map_option (\<lambda>model. model data) (models model_name))
      in case outputs ''A'' of None \<Rightarrow> Inl KeyError | Some A \<Rightarrow>
        (case outputs ''B'' of None \<Rightarrow> Inl KeyError | Some B \<Rightarrow>
        (case outputs ''C'' of None \<Rightarrow> Inl KeyError | Some C \<Rightarrow>
        (case outputs ''D'' of None \<Rightarrow> Inl KeyError | Some D \<Rightarrow>
        (case outputs ''E'' of None \<Rightarrow> Inl KeyError | Some E \<Rightarrow>
           Inr (CpLayer_forward A B C D E T))))))"

text \<open>
  The closed form as the specification words it: \<open>u\<close> and \<open>v\<close> are the quotients clamped
  to \<open>[-20, 20]\<close>, and \<open>sinh\<close>, \<open>cosh\<close> are replaced by the exponential forms wherever
  \<open>\<bar>x\<bar> > 20\<close>. The value is \<open>None\<close> where a divisor is zero.
\<close>

definition spec_clamp :: "real \<Rightarrow> real \<Rightarrow> real \<Rightarrow> real" where
  "spec_clamp x lo hi = (if x < lo then lo else if hi < x then hi else x)"

definition spec_sinh :: "real \<Rightarrow> real" where
  "spec_sinh x = (if 20 < \<bar>x\<bar> then sgn x * exp (min \<bar>x\<bar> 88) / 2 else sinh x)"

definition spec_cosh :: "real \<Rightarrow> real" where
  "spec_cosh x = (if 20 < \<bar>x\<bar> then exp (min \<bar>x\<bar> 88) / 2 else cosh x)"

definition Cp_formula ::
  "real \<Rightarrow> real \<Rightarrow> real \<Rightarrow> real \<Rightarrow> real \<Rightarrow> real \<Rightarrow> real option" where
  "Cp_formula B C D E F T =
     (let eps = 1 / 10 ^ 7;
          u = spec_clamp (D / (T + eps)) (- 20) 20;
          v = spec_clamp (F / (T + eps)) (- 20) 20
      in if T + eps = 0 \<or> spec_sinh u + eps = 0 \<or> spec_cosh v + eps = 0 then None
         else Some (B + C * (u / (spec_sinh u + eps)) ^ 2 + E * (v / (spec_cosh v + eps)) ^ 2))"

section \<open>Prediction metrics (grape/utils/model_train_test.py, pred_metric)\<close>

text \<open>
  Arrays are one-dimensional and hold real numbers. An elementwise operation on two arrays
  broadcasts an array of length one and raises \<^verbatim>\<open>ValueError\<close> when the lengths differ
  otherwise.
\<close>

definition np_binop :: "(real \<Rightarrow> real \<Rightarrow> 'a) \<Rightarrow> real list \<Rightarrow> real list \<Rightarrow> py_error + 'a list" where
  "np_binop f xs ys =
     (if length xs = length ys then Inr (map2 f xs ys)
      else if length xs = 1 then Inr (map (f (hd xs)) ys)
      else if length ys = 1 then Inr (map (\<lambda>x. f x (hd ys)) xs)
      else Inl ValueError)"

text \<open>
  A quotient with divisor zero is \<^verbatim>\<open>inf\<close> or \<^verbatim>\<open>nan\<close> in numpy: \<open>None\<close> stands for such
  a value, and a sum with a \<open>None\<close> summand is \<open>None\<close>.
\<close>

definition np_divide :: "real \<Rightarrow> real \<Rightarrow> real option" where
  "np_divide a b = (if b = 0 then None else Some (a / b))"

fun np_sum :: "real option list \<Rightarrow> real option" where
  "np_sum [] = Some 0"
| "np_sum (None # vs) = None"
| "np_sum (Some v # vs) = (case np_sum vs of None \<Rightarrow> None | Some s \<Rightarrow> Some (v + s))"

text \<open>
  The three metrics taken from scikit-learn are parameters of the model, called with
  \<open>(target, prediction)\<close> as the code does.
\<close>

record sklearn_metrics =
  mean_squared_error :: "real list \<Rightarrow> real list \<Rightarrow> py_error + real"
  mean_absolute_error :: "real list \<Rightarrow> real list \<Rightarrow> py_error + real"
  r2_score :: "real list \<Rightarrow> real list \<Rightarrow> py_error + real"

text \<open>The argument \<^verbatim>\<open>metrics\<close>: one string or a list of strings.\<close>

datatype metrics_arg = Name string | Names "string list"

text \<open>
  One turn of \<^verbatim>\<open>for metric_ in metrics\<close>: the \<^verbatim>\<open>match\<close> statement, which does nothing
  for a string that is none of the five names.
\<close>

definition metric_case ::
  "sklearn_metrics \<Rightarrow> real list \<Rightarrow> real list \<Rightarrow> string \<Rightarrow> (string \<rightharpoonup> real option)
     \<Rightarrow> py_error + (string \<rightharpoonup> real option)" where
  "metric_case sk prediction target metric results =
     (if metric = ''mse'' then
        (case mean_squared_error sk target prediction of
           Inl e \<Rightarrow> Inl e | Inr v \<Rightarrow> Inr (results(''mse'' \<mapsto> Some v)))
      else if metric = ''sse'' then
        (case np_binop (\<lambda>t p. (t - p) ^ 2) target prediction of
           Inl e \<Rightarrow> Inl e | Inr sq \<Rightarrow> Inr (results(''sse'' \<mapsto> Some (sum_list sq))))
      else if metric = ''mae'' then
        (case mean_absolute_error sk target prediction of
           Inl e \<Rightarrow> Inl e | Inr v \<Rightarrow> Inr (results(''mae'' \<mapsto> Some v)))
      else if metric = ''r2'' then
        (case r2_score sk target prediction of
           Inl e \<Rightarrow> Inl e | Inr v \<Rightarrow> Inr (results(''r2'' \<mapsto> Some v)))
      else if metric = ''mre'' then
        (case np_binop (\<lambda>t p. t - p) target prediction of
           Inl e \<Rightarrow> Inl e
         | Inr diff \<Rightarrow>
             (case np_binop np_divide diff target of
                Inl e \<Rightarrow> Inl e
              | Inr quot \<Rightarrow>
                  Inr (results(''mre'' \<mapsto> map_option (\<lambda>s. s * 100) (np_sum quot)))))
      else Inr results)"

fun metric_loop ::
  "sklearn_metrics \<Rightarrow> real list \<Rightarrow> real list \<Rightarrow> string list \<Rightarrow> (string \<rightharpoonup> real option)
     \<Rightarrow> py_error + (string \<rightharpoonup> real option)" where
  "metric_loop sk prediction target [] results = Inr results"
| "metric_loop sk prediction target (metric # rest) results =
     (case metric_case sk prediction target metric results of
        Inl e \<Rightarrow> Inl e
      | Inr results' \<Rightarrow> metric_loop sk prediction target rest results')"

definition pred_metric ::
  "sklearn_metrics \<Rightarrow> real list \<Rightarrow> real list \<Rightarrow> metrics_arg
     \<Rightarrow> py_error + (string \<rightharpoonup> real option)" where
  "pred_metric sk prediction target metrics =
     (let metrics' =
            (case metrics of
               Name s \<Rightarrow>
                 if s = ''all'' then [''mse'', ''sse'', ''mae'', ''r2'', ''mre''] else [s]
             | Names l \<Rightarrow> l)
      in metric_loop sk prediction target metrics' Map.empty)"

text \<open>
  The Mean Relative Error of the docstring of \<^verbatim>\<open>pred_metric\<close>:
  \<open>1/N * sum ((y_i - f(x_i)) / y_i * 100)\<close>, \<open>y\<close> the target and \<open>f(x)\<close> the prediction.
\<close>

definition mean_relative_error :: "real list \<Rightarrow> real list \<Rightarrow> real" where
  "mean_relative_error prediction target =
     1 / real (length target) * sum_list (map2 (\<lambda>y f. (y - f) / y * 100) target prediction)"

section \<open>Graph construction and data sets (dglchem/utils/data.py)\<close>

text \<open>
  A graph sample, \<^verbatim>\<open>Data(x, edge_index, edge_attr, y)\<close>: the node-feature matrix, the
  directed edge list, the edge-feature matrix and the target.
\<close>

type_synonym tensor = "real list list"

record 'y Data =
  data_x :: tensor
  data_edge_index :: "(nat \<times> nat) list"
  data_edge_attr :: tensor
  data_y :: 'y

text \<open>
  The featurizers (\<^verbatim>\<open>dglchem.utils.featurizer\<close>) and the adjacency matrix of RDKit are not
  part of the sources; they are parameters. \<open>edge_index_of\<close> stands for
  \<^verbatim>\<open>dense_to_sparse(torch.tensor(rdmolops.GetAdjacencyMatrix(mol)))[0]\<close>.
\<close>

record 'z featurizers =
  edge_index_of :: "'z mol_scheme \<Rightarrow> py_error + (nat \<times> nat) list"
  atom_featurizer :: "'z mol_scheme \<Rightarrow> py_error + tensor"
  bond_featurizer :: "'z mol_scheme \<Rightarrow> py_error + tensor"

text \<open>
  The loop of \<^verbatim>\<open>construct_dataset\<close> over \<^verbatim>\<open>zip(smiles, range(len(smiles)))\<close>; \<open>i\<close> is the
  index. \<^verbatim>\<open>GetAdjacencyMatrix(None)\<close> raises (a \<^verbatim>\<open>TypeError\<close>) for a string that does not
  parse, and \<^verbatim>\<open>target[i]\<close> raises \<^verbatim>\<open>IndexError\<close> beyond the end of \<open>target\<close>.
\<close>

fun construct_loop ::
  "'z smiles_parser \<Rightarrow> 'z featurizers \<Rightarrow> 'y list \<Rightarrow> string list \<Rightarrow> nat
     \<Rightarrow> py_error + 'y Data list" where
  "construct_loop MolFromSmiles fz target [] i = Inr []"
| "construct_loop MolFromSmiles fz target (smile # rest) i =
     (case MolFromSmiles smile of
        None \<Rightarrow> Inl TypeError
      | Some m \<Rightarrow>
     (case edge_index_of fz m of
        Inl e \<Rightarrow> Inl e
      | Inr edge_index \<Rightarrow>
     (case atom_featurizer fz m of
        Inl e \<Rightarrow> Inl e
      | Inr x \<Rightarrow>
     (case bond_featurizer fz m of
        Inl e \<Rightarrow> Inl e
      | Inr edge_attr \<Rightarrow>
          if length target \<le> i then Inl IndexError
          else
            (case construct_loop MolFromSmiles fz target rest (Suc i) of
               Inl e \<Rightarrow> Inl e
             | Inr data \<Rightarrow>
                 Inr (\<lparr>data_x = x, data_edge_index = edge_index, data_edge_attr = edge_attr,
                       data_y = target ! i\<rparr> # data))))))"

definition construct_dataset ::
  "'z smiles_parser \<Rightarrow> 'z featurizers \<Rightarrow> string list \<Rightarrow> 'y list \<Rightarrow> py_error + 'y Data list" where
  "construct_dataset MolFromSmiles fz smiles target =
     construct_loop MolFromSmiles fz target smiles 0"

text \<open>
  \<^verbatim>\<open>np.std\<close>: the square root of the mean of the squared distances to the mean (the
  population standard deviation), \<^verbatim>\<open>nan\<close> for an empty array.
\<close>

definition np_std :: "real list \<Rightarrow> np_float" where
  "np_std xs =
     (case np_mean xs of
        Fin mu \<Rightarrow>
          (case np_mean (map (\<lambda>x. \<bar>x - mu\<bar> ^ 2) xs) of Fin v \<Rightarrow> Fin (sqrt v) | _ \<Rightarrow> NaN)
      | _ \<Rightarrow> NaN)"

text \<open>
  The two lines under \<^verbatim>\<open># standardize target\<close> of \<^verbatim>\<open>DataSet.__init__\<close>:
  \<^verbatim>\<open>(target_-np.mean(target_))/np.std(target_)\<close>, elementwise. An element is \<open>None\<close> when
  it is not a finite number (a zero standard deviation).
\<close>

definition standardize_target :: "real list \<Rightarrow> real option list" where
  "standardize_target target' =
     (case np_mean target' of
        Fin mu \<Rightarrow>
          (case np_std target' of
             Fin sd \<Rightarrow> map (\<lambda>t. np_divide (t - mu) sd) target'
           | _ \<Rightarrow> map (\<lambda>t. None) target')
      | _ \<Rightarrow> map (\<lambda>t. None) target')"

text \<open>
  The attributes of a \<^verbatim>\<open>DataSet\<close>. \<open>ds_smiles\<close> and \<open>ds_target\<close> are \<open>None\<close> for a data
  set loaded from a pickle file, which does not set them.
\<close>

record DataSet =
  ds_root :: string
  ds_data :: "real option Data list"
  ds_smiles :: "string list option"
  ds_target :: "real option list option"
  ds_global_features :: "tensor option"

text \<open>
  \<^verbatim>\<open>DataSet.__init__\<close>. \<open>pickle_load\<close> stands for opening the file at the path and
  unpickling it. The arguments \<^verbatim>\<open>atom_feature_list\<close> and \<^verbatim>\<open>bond_feature_list\<close> configure the
  featurizers, which are parameters here, and \<^verbatim>\<open>log\<close> only prints.
\<close>

definition DataSet_init ::
  "(string \<Rightarrow> py_error + real option Data list) \<Rightarrow> 'z smiles_parser \<Rightarrow> 'z featurizers
     \<Rightarrow> string option \<Rightarrow> string list option \<Rightarrow> real list option \<Rightarrow> tensor option
     \<Rightarrow> string list option \<Rightarrow> string option \<Rightarrow> py_error + DataSet" where
  "DataSet_init pickle_load MolFromSmiles fz file_path smiles target global_features
      allowed_atoms root_dir =
     (let root' = (case root_dir of None \<Rightarrow> ''./data'' | Some r \<Rightarrow> r)
      in case file_path of
           Some path \<Rightarrow>
             (case pickle_load path of
                Inl e \<Rightarrow> Inl e
              | Inr d \<Rightarrow>
                  Inr \<lparr>ds_root = root', ds_data = d, ds_smiles = None, ds_target = None,
                       ds_global_features = None\<rparr>)
         | None \<Rightarrow>
        (case smiles of
           None \<Rightarrow> Inl AssertionError
         | Some smiles' \<Rightarrow>
        (case target of
           None \<Rightarrow> Inl AssertionError
         | Some target' \<Rightarrow>
        (case filter_smiles MolFromSmiles smiles' target' allowed_atoms of
           Inl e \<Rightarrow> Inl e
         | Inr (self_smiles, self_target) \<Rightarrow>
             (let standardized = standardize_target self_target
              in case construct_dataset MolFromSmiles fz self_smiles standardized of
                   Inl e \<Rightarrow> Inl e
                 | Inr d \<Rightarrow>
                     Inr \<lparr>ds_root = root', ds_data = d, ds_smiles = Some self_smiles,
                          ds_target = Some standardized,
                          ds_global_features = global_features\<rparr>)))))"

section \<open>Data set splitting (dglchem/utils/data.py)\<close>

text \<open>
  The splitter classes of \<^verbatim>\<open>dgllife.utils.splitters\<close> and the dictionary \<^verbatim>\<open>split_func\<close>.
  What \<^verbatim>\<open>train_val_test_split\<close> of a class returns is a parameter of the model: a triple
  (train, validation, test), or an exception.
\<close>

datatype splitter = ConsecutiveSplitter | RandomSplitter | MolecularWeightSplitter
  | ScaffoldSplitter | SingleTaskStratifiedSplitter

definition split_func :: "string \<rightharpoonup> splitter" where
  "split_func =
     map_of
      [(''consecutive'', ConsecutiveSplitter),
       (''random'', RandomSplitter),
       (''molecular_weight'', MolecularWeightSplitter),
       (''scaffold'', ScaffoldSplitter),
       (''stratified'', SingleTaskStratifiedSplitter)]"

type_synonym samples = "real option Data list"

type_synonym split_call =
  "splitter \<Rightarrow> samples \<Rightarrow> real \<Rightarrow> real \<Rightarrow> real \<Rightarrow> py_error + (samples \<times> samples \<times> samples)"

text \<open>
  One component of what \<^verbatim>\<open>split_data\<close> returns: a subset of the samples on the named
  strategies, and on the custom strategy \<^verbatim>\<open>custom_split[custom_split == i]\<close>, the entries
  of the label array that equal \<open>i\<close>.
\<close>

datatype split_part = LabelArray "int list" | Subset samples

text \<open>
  \<^verbatim>\<open>split_data\<close> is a function of the module and has no parameter \<^verbatim>\<open>self\<close>; the module
  binds no such name either. Its assertion reads \<^verbatim>\<open>len(self.data)\<close>: evaluating the name
  raises \<^verbatim>\<open>NameError\<close>. \<open>self_data\<close> is the value of \<^verbatim>\<open>self.data\<close> in the scope of
  \<^verbatim>\<open>split_data\<close>, \<open>None\<close> for the unbound name.
\<close>

definition self_data :: "samples option" where
  "self_data = None"

text \<open>
  \<^verbatim>\<open>split_frac[0]\<close> raises \<^verbatim>\<open>TypeError\<close> on \<^verbatim>\<open>None\<close> and \<^verbatim>\<open>IndexError\<close> on a list that
  is too short; \<^verbatim>\<open>split_func[split_type]\<close> raises \<^verbatim>\<open>KeyError\<close> for any other name.
\<close>

definition split_data ::
  "split_call \<Rightarrow> samples \<Rightarrow> string option \<Rightarrow> real list option \<Rightarrow> int list option
     \<Rightarrow> py_error + (split_part \<times> split_part \<times> split_part)" where
  "split_data train_val_test_split data split_type split_frac custom_split =
     (if split_type = Some ''custom'' then
        (case custom_split of
           None \<Rightarrow> Inl AssertionError
         | Some cs \<Rightarrow>
             (case self_data of
                None \<Rightarrow> Inl NameError
              | Some d \<Rightarrow>
                  if length cs = length d then
                    Inr (LabelArray (filter (\<lambda>l. l = 0) cs),
                         LabelArray (filter (\<lambda>l. l = 1) cs),
                         LabelArray (filter (\<lambda>l. l = 2) cs))
                  else Inl AssertionError))
      else
        (case (case split_type of None \<Rightarrow> None | Some s \<Rightarrow> split_func s) of
           None \<Rightarrow> Inl KeyError
         | Some cls \<Rightarrow>
             (case split_frac of
                None \<Rightarrow> Inl TypeError
              | Some fr \<Rightarrow>
                  if length fr < 3 then Inl IndexError
                  else
                    (case train_val_test_split cls data (fr ! 0) (fr ! 1) (fr ! 2) of
                       Inl e \<Rightarrow> Inl e
                     | Inr (tr, va, te) \<Rightarrow> Inr (Subset tr, Subset va, Subset te)))))"

text \<open>
  \<^verbatim>\<open>MakeGraphDataSet\<close> adds the split to the attributes of \<^verbatim>\<open>DataSet\<close>. \<open>mg_train\<close>,
  \<open>mg_test\<close> and \<open>mg_val\<close> are the attributes \<^verbatim>\<open>train\<close>, \<^verbatim>\<open>test\<close> and \<^verbatim>\<open>val\<close>, \<open>None\<close>
  when \<^verbatim>\<open>split\<close> is false and they are not set.
\<close>

record MakeGraphDataSet = DataSet +
  mg_custom_split :: "int list option"
  mg_split_type :: string
  mg_split_frac :: "real list"
  mg_train :: "split_part option"
  mg_test :: "split_part option"
  mg_val :: "split_part option"

text \<open>
  \<^verbatim>\<open>MakeGraphDataSet.__init__\<close>. \<^verbatim>\<open>assert np.sum(self.split_frac)\<close> fails when the sum
  is zero, the only float that is false. The tuple returned by \<^verbatim>\<open>split_data\<close> is unpacked
  into \<^verbatim>\<open>self.train, self.test, self.val\<close>, in this order.
\<close>

definition MakeGraphDataSet_init ::
  "(string \<Rightarrow> py_error + samples) \<Rightarrow> 'z smiles_parser \<Rightarrow> 'z featurizers \<Rightarrow> split_call
     \<Rightarrow> string option \<Rightarrow> string list option \<Rightarrow> real list option \<Rightarrow> tensor option
     \<Rightarrow> string list option \<Rightarrow> bool \<Rightarrow> string option \<Rightarrow> real list option
     \<Rightarrow> int list option \<Rightarrow> py_error + MakeGraphDataSet" where
  "MakeGraphDataSet_init pickle_load MolFromSmiles fz train_val_test_split
      path smiles target global_features allowed_atoms split split_type split_frac
      custom_split =
     (case DataSet_init pickle_load MolFromSmiles fz path smiles target global_features
             allowed_atoms None of
        Inl e \<Rightarrow> Inl e
      | Inr ds \<Rightarrow>
          (let split_type' = (case split_type of None \<Rightarrow> ''random'' | Some s \<Rightarrow> s);
               split_frac' = (case split_frac of None \<Rightarrow> [8 / 10, 1 / 10, 1 / 10] | Some f \<Rightarrow> f)
           in if sum_list split_frac' = 0 then Inl AssertionError
              else if split then
                (case split_data train_val_test_split (ds_data ds) (Some split_type')
                        (Some split_frac') custom_split of
                   Inl e \<Rightarrow> Inl e
                 | Inr (a, b, c) \<Rightarrow>
                     Inr \<lparr>ds_root = ds_root ds, ds_data = ds_data ds, ds_smiles = ds_smiles ds,
                          ds_target = ds_target ds,
                          ds_global_features = ds_global_features ds,
                          mg_custom_split = custom_split, mg_split_type = split_type',
                          mg_split_frac = split_frac',
                          mg_train = Some a, mg_test = Some b, mg_val = Some c\<rparr>)
              else
                Inr \<lparr>ds_root = ds_root ds, ds_data = ds_data ds, ds_smiles = ds_smiles ds,
                     ds_target = ds_target ds,
                     ds_global_features = ds_global_features ds,
                     mg_custom_split = custom_split, mg_split_type = split_type',
                     mg_split_frac = split_frac',
                     mg_train = None, mg_test = None, mg_val = None\<rparr>))"

text \<open>
  The mean and the (population) standard deviation of a list of reals, as the
  specification of standardization uses them.
\<close>

definition mean :: "real list \<Rightarrow> real" where
  "mean xs = sum_list xs / real (length xs)"

definition std_dev :: "real list \<Rightarrow> real" where
  "std_dev xs = sqrt (mean (map (\<lambda>x. (x - mean xs) ^ 2) xs))"

text \<open>
  Featurizers that return empty tensors, used with \<open>rdkit_sample\<close> to run the
  constructors on concrete inputs.
\<close>

definition sample_featurizers :: "unit featurizers" where
  "sample_featurizers =
     \<lparr>edge_index_of = (\<lambda>m. Inr []), atom_featurizer = (\<lambda>m. Inr []),
      bond_featurizer = (\<lambda>m. Inr [])\<rparr>"

text \<open>A sample with empty tensors and the target \<open>t\<close>, for concrete runs.\<close>

definition sample_graph :: "real \<Rightarrow> real option Data" where
  "sample_graph t = \<lparr>data_x = [], data_edge_index = [], data_edge_attr = [], data_y = Some t\<rparr>"

section \<open>Properties of the SMILES filter\<close>

lemma list_index_mem:
  "x \<in> set xs \<Longrightarrow>
     \<exists>i. list_index xs x = Inr i \<and> i < length xs \<and> xs ! i = x \<and> x \<notin> set (take i xs)"
  by (induction xs) (auto split: sum.splits)

lemma list_index_Inr:
  "list_index xs x = Inr i \<Longrightarrow> i < length xs \<and> xs ! i = x \<and> x \<notin> set (take i xs)"
  by (induction xs arbitrary: i) (auto split: sum.splits if_splits)

lemma list_index_first:
  assumes "i < length xs" and "xs ! i \<notin> set (take i xs)"
  shows "list_index xs (xs ! i) = Inr i"
proof -
  have mem: "xs ! i \<in> set xs" using assms(1) by simp
  from list_index_mem[OF mem] obtain j where
      j: "list_index xs (xs ! i) = Inr j" "j < length xs" "xs ! j = xs ! i"
         "xs ! i \<notin> set (take j xs)"
    by (elim exE conjE)
  have "\<not> j < i"
  proof
    assume "j < i"
    then have "take i xs ! j \<in> set (take i xs)"
      using assms(1) by (intro nth_mem) simp
    with \<open>j < i\<close> j(3) assms(2) show False by simp
  qed
  moreover have "\<not> i < j"
  proof
    assume "i < j"
    then have "take j xs ! i \<in> set (take j xs)"
      using j(2) by (intro nth_mem) simp
    with \<open>i < j\<close> j(4) show False by simp
  qed
  ultimately show ?thesis using j(1) by simp
qed

lemma drops_of_element_set:
  assumes "element \<in> set col"
  shows "\<exists>ds. drops_of_element P al col element = Inr ds \<and>
           set ds = {i. \<not> entry_ok P al element \<and> list_index col element = Inr i}"
proof -
  obtain i where i: "list_index col element = Inr i"
    using list_index_mem[OF assms] by blast
  show ?thesis
  proof (cases "P element")
    case None
    then show ?thesis using i by (auto simp: drops_of_element_def entry_ok_def)
  next
    case (Some m)
    show ?thesis
    proof (cases "NumHeavyAtoms m < 2")
      case True
      then show ?thesis using i Some by (auto simp: drops_of_element_def entry_ok_def)
    next
      case False
      show ?thesis
      proof (cases "list_all (\<lambda>a. a \<in> set al) (AtomSymbols m)")
        case True
        then show ?thesis using i Some False by (auto simp: drops_of_element_def entry_ok_def)
      next
        case nall: False
        then have ne: "filter (\<lambda>a. a \<notin> set al) (AtomSymbols m) \<noteq> []"
          by (auto simp: filter_empty_conv list_all_iff)
        have "set (map (\<lambda>a. i) (filter (\<lambda>a. a \<notin> set al) (AtomSymbols m))) = {i}"
          using ne by (cases "filter (\<lambda>a. a \<notin> set al) (AtomSymbols m)") auto
        then show ?thesis using i Some False nall
          by (auto simp: drops_of_element_def entry_ok_def)
      qed
    qed
  qed
qed

lemma collect_drops_set:
  "set rest \<subseteq> set col \<Longrightarrow>
     \<exists>ds. collect_drops P al col rest acc = Inr ds \<and>
       set ds = set acc \<union> {i. \<exists>e \<in> set rest. \<not> entry_ok P al e \<and> list_index col e = Inr i}"
proof (induction rest arbitrary: acc)
  case Nil
  then show ?case by simp
next
  case (Cons e rest)
  then have "e \<in> set col" and sub: "set rest \<subseteq> set col" by auto
  then obtain new where new: "drops_of_element P al col e = Inr new"
      "set new = {i. \<not> entry_ok P al e \<and> list_index col e = Inr i}"
    using drops_of_element_set by blast
  from Cons.IH[OF sub, of "acc @ new"] obtain ds where
    ds: "collect_drops P al col rest (acc @ new) = Inr ds"
        "set ds = set (acc @ new) \<union> {i. \<exists>e \<in> set rest. \<not> entry_ok P al e \<and> list_index col e = Inr i}"
    by blast
  show ?case using new ds by auto
qed

lemma filter_smiles_rows:
  assumes len: "length smiles = length target"
  shows "filter_smiles P smiles target aa =
           (let al = (case aa of None \<Rightarrow> default_allowed_atoms | Some a \<Rightarrow> a);
                kept = map snd (filter (\<lambda>(i, (s, t)). entry_ok P al s \<or> s \<in> set (take i smiles))
                          (enumerate 0 (zip smiles target)))
            in Inr (map fst kept, map snd kept))"
proof -
  define al where "al = (case aa of None \<Rightarrow> default_allowed_atoms | Some a \<Rightarrow> a)"
  obtain ds where ds: "collect_drops P al smiles smiles [] = Inr ds"
     "set ds = {i. \<exists>e \<in> set smiles. \<not> entry_ok P al e \<and> list_index smiles e = Inr i}"
    using collect_drops_set[of smiles smiles P al "[]"] by auto
  have bound: "\<not> list_ex (\<lambda>i. length (zip smiles target) \<le> i) ds"
    using ds(2) len by (auto simp: list_ex_iff dest: list_index_Inr)
  have keep: "filter (\<lambda>(i, r). i \<notin> set ds) (enumerate 0 (zip smiles target)) =
        filter (\<lambda>(i, (s, t)). entry_ok P al s \<or> s \<in> set (take i smiles)) (enumerate 0 (zip smiles target))"
  proof (rule filter_cong[OF refl])
    fix x assume x: "x \<in> set (enumerate 0 (zip smiles target))"
    obtain i s t where xe: "x = (i, (s, t))" by (cases x) auto
    from x xe have i: "i < length smiles" and s: "s = smiles ! i"
      using len by (auto simp: in_set_enumerate_eq)
    have "i \<in> set ds \<longleftrightarrow> \<not> (entry_ok P al s \<or> s \<in> set (take i smiles))"
    proof
      assume "i \<in> set ds"
      then obtain e where e: "\<not> entry_ok P al e" "list_index smiles e = Inr i"
        using ds(2) by auto
      from list_index_Inr[OF e(2)] e(1) s show "\<not> (entry_ok P al s \<or> s \<in> set (take i smiles))"
        by auto
    next
      assume a: "\<not> (entry_ok P al s \<or> s \<in> set (take i smiles))"
      then have "list_index smiles (smiles ! i) = Inr i"
        using list_index_first[OF i] s by auto
      then show "i \<in> set ds" using ds(2) a s i by auto
    qed
    then show "(case x of (i, r) \<Rightarrow> i \<notin> set ds) = (case x of (i, (s, t)) \<Rightarrow> entry_ok P al s \<or> s \<in> set (take i smiles))"
      using xe by auto
  qed
  show ?thesis
    using len ds(1) bound keep
    by (simp add: filter_smiles_def df_drop_def al_def[symmetric] Let_def)
qed

lemma enumerate_filter_snd:
  "map snd (filter (\<lambda>(i, r). Q r) (enumerate n xs)) = filter Q xs"
  by (induction xs arbitrary: n) auto

lemma filter_smiles_distinct:
  assumes len: "length smiles = length target" and dist: "distinct smiles"
  shows "filter_smiles P smiles target aa =
           (let al = (case aa of None \<Rightarrow> default_allowed_atoms | Some a \<Rightarrow> a);
                kept = filter (\<lambda>(s, t). entry_ok P al s) (zip smiles target)
            in Inr (map fst kept, map snd kept))"
proof -
  define al where "al = (case aa of None \<Rightarrow> default_allowed_atoms | Some a \<Rightarrow> a)"
  have "filter (\<lambda>(i, (s, t)). entry_ok P al s \<or> s \<in> set (take i smiles))
          (enumerate 0 (zip smiles target))
        = filter (\<lambda>(i, r). (case r of (s, t) \<Rightarrow> entry_ok P al s))
          (enumerate 0 (zip smiles target))"
  proof (rule filter_cong[OF refl])
    fix x assume x: "x \<in> set (enumerate 0 (zip smiles target))"
    obtain i s t where xe: "x = (i, (s, t))" by (cases x) auto
    from x xe have i: "i < length smiles" and s: "s = smiles ! i"
      using len by (auto simp: in_set_enumerate_eq)
    have "smiles ! i \<notin> set (take i smiles)"
    proof
      assume "smiles ! i \<in> set (take i smiles)"
      then obtain j where "j < i" "smiles ! j = smiles ! i"
        using i by (auto simp: in_set_conv_nth)
      then show False using dist i by (auto simp: distinct_conv_nth)
    qed
    then show "(case x of (i, (s, t)) \<Rightarrow> entry_ok P al s \<or> s \<in> set (take i smiles)) =
               (case x of (i, r) \<Rightarrow> (case r of (s, t) \<Rightarrow> entry_ok P al s))"
      using xe s by simp
  qed
  then have kept:
    "map snd (filter (\<lambda>(i, (s, t)). entry_ok P al s \<or> s \<in> set (take i smiles))
          (enumerate 0 (zip smiles target))) = filter (\<lambda>(s, t). entry_ok P al s) (zip smiles target)"
    by (simp add: enumerate_filter_snd)
  from filter_smiles_rows[OF len, of P aa] show ?thesis
    unfolding Let_def al_def[symmetric] kept .
qed

text \<open>
  Claim C1. For every list of SMILES strings and target list of the same length,
  \<open>filter_smiles\<close> returns exactly the entries that parse, have at least two heavy atoms
  and use allowed atom symbols only, in order and index-aligned, also when the input holds
  the same string twice.

  The code drops the row \<^verbatim>\<open>list(df.smiles).index(element)\<close>, the first row holding the
  string, once for each failing occurrence: a failing string that occurs twice loses its
  first row only. Methane, with one heavy atom, given twice comes back once, with the
  target of the second row. (\<open>filter_smiles_rows\<close> gives the rows kept in general,
  \<open>filter_smiles_distinct\<close> the claim's result for inputs without repetition.)
\<close>

theorem filter_smiles_duplicate_survives:
  "filter_smiles rdkit_sample [''C'', ''C''] [1::int, 2] None = Inr ([''C''], [2])
   \<and> \<not> entry_ok rdkit_sample default_allowed_atoms ''C''"
  by (simp add: filter_smiles_def rdkit_sample_def drops_of_element_def df_drop_def
        default_allowed_atoms_def entry_ok_def)

section \<open>Properties of the training loop\<close>

lemma epoch_body_fields:
  "train_loss (epoch_body ts vstep trb vab st) =
     train_loss st @ [np_mean (fst (run_batches ts (model st) trb))]"
  "val_loss (epoch_body ts vstep trb vab st) =
     val_loss st @ [np_mean (fst (run_batches vstep (snd (run_batches ts (model st) trb)) vab))]"
  "loss_cut (epoch_body ts vstep trb vab st) =
     (if np_less (last (val_loss (epoch_body ts vstep trb vab st))) (loss_cut st)
      then last (val_loss (epoch_body ts vstep trb vab st)) else loss_cut st)"
  "counter (epoch_body ts vstep trb vab st) =
     (if np_less (last (val_loss (epoch_body ts vstep trb vab st))) (loss_cut st)
      then 0 else counter st + 1)"
  by (simp_all add: epoch_body_def Let_def split: prod.splits)

lemma epoch_loop_funpow:
  "\<exists>j \<le> n. epoch_loop body es p n st = (body ^^ j) st
      \<and> (\<forall>k. 0 < k \<and> k < j \<longrightarrow> \<not> (counter ((body ^^ k) st) = p \<and> es))
      \<and> (j < n \<longrightarrow> counter ((body ^^ j) st) = p \<and> es)"
proof (induction n arbitrary: st)
  case 0
  then show ?case by simp
next
  case (Suc n)
  show ?case
  proof (cases "counter (body st) = p \<and> es")
    case True
    then have "epoch_loop body es p (Suc n) st = (body ^^ 1) st" by simp
    moreover have "(1::nat) \<le> Suc n" by simp
    ultimately show ?thesis using True
      by (intro exI[of _ 1]) auto
  next
    case False
    from Suc.IH[of "body st"] obtain j where j: "j \<le> n"
      "epoch_loop body es p n (body st) = (body ^^ j) (body st)"
      "\<forall>k. 0 < k \<and> k < j \<longrightarrow> \<not> (counter ((body ^^ k) (body st)) = p \<and> es)"
      "j < n \<longrightarrow> counter ((body ^^ j) (body st)) = p \<and> es"
      by (elim exE conjE)
    have sh: "\<And>k. (body ^^ k) (body st) = (body ^^ Suc k) st"
      by (simp add: funpow_swap1)
    have "epoch_loop body es p (Suc n) st = (body ^^ Suc j) st"
      using False j(2) sh by (auto simp: Let_def)
    moreover have "\<forall>k. 0 < k \<and> k < Suc j \<longrightarrow> \<not> (counter ((body ^^ k) st) = p \<and> es)"
    proof (intro allI impI)
      fix k assume k: "0 < k \<and> k < Suc j"
      then obtain k' where k': "k = Suc k'" by (cases k) auto
      show "\<not> (counter ((body ^^ k) st) = p \<and> es)"
      proof (cases "k' = 0")
        case True
        then show ?thesis using False k' by simp
      next
        case nz: False
        then have "0 < k' \<and> k' < j" using k k' by simp
        with j(3) have "\<not> (counter ((body ^^ k') (body st)) = p \<and> es)" by blast
        then show ?thesis using sh k' by simp
      qed
    qed
    moreover have "Suc j < Suc n \<longrightarrow> counter ((body ^^ Suc j) st) = p \<and> es"
      using j(4) sh by simp
    ultimately show ?thesis using j(1)
      by (intro exI[of _ "Suc j"]) simp
  qed
qed


lemma state_after_Suc:
  "state_after ts vstep m trb vab (Suc k) =
     epoch_body ts vstep trb vab (state_after ts vstep m trb vab k)"
  by (simp add: state_after_def)

lemma state_after_0: "state_after ts vstep m trb vab 0 = init_state m"
  by (simp add: state_after_def)

lemma state_after_lengths:
  "length (train_loss (state_after ts vstep m trb vab k)) = k \<and>
   length (val_loss (state_after ts vstep m trb vab k)) = k"
  by (induction k) (simp_all add: state_after_0 init_state_def state_after_Suc epoch_body_fields)

lemma state_after_prefix:
  "k \<le> n \<Longrightarrow>
     train_loss (state_after ts vstep m trb vab k) =
       take k (train_loss (state_after ts vstep m trb vab n)) \<and>
     val_loss (state_after ts vstep m trb vab k) =
       take k (val_loss (state_after ts vstep m trb vab n))"
proof (induction n)
  case 0
  then show ?case by (simp add: state_after_0 init_state_def)
next
  case (Suc n)
  show ?case
  proof (cases "k = Suc n")
    case True
    then show ?thesis using state_after_lengths[of ts vstep m trb vab "Suc n"] by simp
  next
    case False
    then have "k \<le> n" using Suc.prems by simp
    then show ?thesis
      using Suc.IH state_after_lengths[of ts vstep m trb vab n]
      by (simp add: state_after_Suc epoch_body_fields)
  qed
qed

lemma fin_values_append:
  "fin_values (vs @ [v]) = fin_values vs @ (case v of Fin r \<Rightarrow> [r] | _ \<Rightarrow> [])"
  by (induction vs rule: fin_values.induct) (auto split: np_float.splits)

lemma minimum_seen_step:
  "(if np_less v (minimum_seen vs) then v else minimum_seen vs) = minimum_seen (vs @ [v])"
proof (cases v)
  case NaN
  then show ?thesis by (simp add: minimum_seen_def fin_values_append)
next
  case PInf
  then show ?thesis by (simp add: minimum_seen_def fin_values_append)
next
  case (Fin r)
  show ?thesis
  proof (cases "fin_values vs = []")
    case True
    then show ?thesis using Fin by (simp add: minimum_seen_def fin_values_append)
  next
    case False
    define c where "c = Min (set (fin_values vs))"
    have "Min (insert r (set (fin_values vs))) = min r c"
      using False by (simp add: c_def)
    then have "minimum_seen (vs @ [v]) = Fin (min r c)"
      using Fin by (simp add: minimum_seen_def fin_values_append)
    moreover have "minimum_seen vs = Fin c"
      using False by (simp add: minimum_seen_def c_def)
    ultimately show ?thesis using Fin by (simp add: min_def)
  qed
qed

lemma state_after_loss_cut:
  "loss_cut (state_after ts vstep m trb vab k) =
     minimum_seen (val_loss (state_after ts vstep m trb vab k))"
proof (induction k)
  case 0
  then show ?case by (simp add: state_after_0 init_state_def minimum_seen_def)
next
  case (Suc k)
  let ?st = "state_after ts vstep m trb vab k"
  let ?v = "np_mean (fst (run_batches vstep (snd (run_batches ts (model ?st) trb)) vab))"
  have "loss_cut (state_after ts vstep m trb vab (Suc k)) =
          (if np_less ?v (loss_cut ?st) then ?v else loss_cut ?st)"
    by (simp add: state_after_Suc epoch_body_fields)
  also have "\<dots> = minimum_seen (val_loss ?st @ [?v])"
    unfolding Suc.IH by (rule minimum_seen_step)
  finally show ?case by (simp add: state_after_Suc epoch_body_fields)
qed

lemma state_after_counter:
  "counter (state_after ts vstep m trb vab (Suc k)) =
     (if np_less (last (val_loss (state_after ts vstep m trb vab (Suc k))))
           (loss_cut (state_after ts vstep m trb vab k))
      then 0 else counter (state_after ts vstep m trb vab k) + 1)"
  by (simp add: state_after_Suc epoch_body_fields)

lemma train_run_state_after:
  "\<exists>j \<le> nat epochs.
     train_run ts vstep m trb vab epochs es p = state_after ts vstep m trb vab j
      \<and> (\<forall>k. 0 < k \<and> k < j \<longrightarrow> \<not> (counter (state_after ts vstep m trb vab k) = p \<and> es))
      \<and> (j < nat epochs \<longrightarrow> counter (state_after ts vstep m trb vab j) = p \<and> es)"
  unfolding train_run_def state_after_def by (rule epoch_loop_funpow)

text \<open>
  Claim C2. \<open>train_model\<close> runs at most \<open>epochs\<close> epochs. Each epoch run appends one
  mean mini-batch training loss and one mean mini-batch validation loss, so both returned
  lists have one entry per epoch run. \<open>loss_cut\<close> is the minimum validation loss seen so
  far; \<open>counter\<close> is reset to zero by an epoch whose validation loss is strictly below
  that minimum and incremented by every other epoch. With \<open>early_stopping\<close> the loop ends
  at the end of the first epoch after which \<open>counter\<close> equals \<open>patience\<close>; without it,
  all \<open>epochs\<close> epochs run.

  Below, the number of epochs run is \<open>length tls\<close>, and \<open>state_after \<dots> k\<close> is the state
  of the loop after its first \<open>k\<close> epochs.
\<close>

theorem train_model_bookkeeping:
  assumes run: "train_model train_step val_step m train_data_loader val_data_loader
                  epochs early_stopping patience = (tls, vls)"
  shows "length tls \<le> nat epochs \<and> length vls = length tls
    \<and> train_run train_step val_step m train_data_loader val_data_loader
          epochs early_stopping patience
        = state_after train_step val_step m train_data_loader val_data_loader (length tls)
    \<and> (\<forall>k < length tls.
          tls ! k = np_mean (fst (run_batches train_step
                      (model (state_after train_step val_step m train_data_loader val_data_loader k))
                      train_data_loader))
        \<and> vls ! k = np_mean (fst (run_batches val_step
                      (snd (run_batches train_step
                        (model (state_after train_step val_step m train_data_loader val_data_loader k))
                        train_data_loader))
                      val_data_loader)))
    \<and> (\<forall>k \<le> length tls.
          loss_cut (state_after train_step val_step m train_data_loader val_data_loader k)
            = minimum_seen (take k vls))
    \<and> counter (state_after train_step val_step m train_data_loader val_data_loader 0) = 0
    \<and> (\<forall>k < length tls.
          counter (state_after train_step val_step m train_data_loader val_data_loader (Suc k))
            = (if np_less (vls ! k) (minimum_seen (take k vls)) then 0
               else counter (state_after train_step val_step m train_data_loader val_data_loader k) + 1))
    \<and> (early_stopping \<longrightarrow>
          (\<forall>k. 0 < k \<and> k < length tls \<longrightarrow>
             counter (state_after train_step val_step m train_data_loader val_data_loader k) \<noteq> patience)
          \<and> (length tls < nat epochs \<longrightarrow>
             counter (state_after train_step val_step m train_data_loader val_data_loader (length tls))
               = patience))
    \<and> (\<not> early_stopping \<longrightarrow> length tls = nat epochs)"
proof -
  let ?S = "state_after train_step val_step m train_data_loader val_data_loader"
  obtain j where j: "j \<le> nat epochs"
     "train_run train_step val_step m train_data_loader val_data_loader
          epochs early_stopping patience = ?S j"
     "\<forall>k. 0 < k \<and> k < j \<longrightarrow> \<not> (counter (?S k) = patience \<and> early_stopping)"
     "j < nat epochs \<longrightarrow> counter (?S j) = patience \<and> early_stopping"
    using train_run_state_after[of epochs train_step val_step m train_data_loader
        val_data_loader early_stopping patience]
    by (elim exE conjE)
  have tls: "tls = train_loss (?S j)" and vls: "vls = val_loss (?S j)"
    using run j(2) by (simp_all add: train_model_def Let_def)
  have len: "length tls = j" "length vls = j"
    using tls vls state_after_lengths[of train_step val_step m train_data_loader val_data_loader j]
    by simp_all
  have pre: "\<And>k. k \<le> j \<Longrightarrow> train_loss (?S k) = take k tls \<and> val_loss (?S k) = take k vls"
    unfolding tls vls by (rule state_after_prefix)
  have entry: "\<And>k. k < j \<Longrightarrow>
      tls ! k = np_mean (fst (run_batches train_step (model (?S k)) train_data_loader))
    \<and> vls ! k = np_mean (fst (run_batches val_step
                      (snd (run_batches train_step (model (?S k)) train_data_loader))
                      val_data_loader))"
  proof -
    fix k assume k: "k < j"
    then have sk: "Suc k \<le> j" by simp
    have a0: "train_loss (?S (Suc k)) = train_loss (?S k) @
              [np_mean (fst (run_batches train_step (model (?S k)) train_data_loader))]"
      by (simp add: state_after_Suc epoch_body_fields)
    have a: "take (Suc k) tls = train_loss (?S k) @
              [np_mean (fst (run_batches train_step (model (?S k)) train_data_loader))]"
      using pre[OF sk] a0 by (simp only:)
    have b0: "val_loss (?S (Suc k)) = val_loss (?S k) @
              [np_mean (fst (run_batches val_step
                      (snd (run_batches train_step (model (?S k)) train_data_loader))
                      val_data_loader))]"
      by (simp add: state_after_Suc epoch_body_fields)
    have b: "take (Suc k) vls = val_loss (?S k) @
              [np_mean (fst (run_batches val_step
                      (snd (run_batches train_step (model (?S k)) train_data_loader))
                      val_data_loader))]"
      using pre[OF sk] b0 by (simp only:)
    have lk: "length (train_loss (?S k)) = k" "length (val_loss (?S k)) = k"
      using state_after_lengths[of train_step val_step m train_data_loader val_data_loader k]
      by simp_all
    have "tls ! k = take (Suc k) tls ! k" by simp
    also have "\<dots> = np_mean (fst (run_batches train_step (model (?S k)) train_data_loader))"
      unfolding a using lk(1) by (simp add: nth_append)
    finally have A: "tls ! k = np_mean (fst (run_batches train_step (model (?S k)) train_data_loader))" .
    have "vls ! k = take (Suc k) vls ! k" by simp
    also have "\<dots> = np_mean (fst (run_batches val_step
                      (snd (run_batches train_step (model (?S k)) train_data_loader))
                      val_data_loader))"
      unfolding b using lk(2) by (simp add: nth_append)
    finally show "tls ! k = np_mean (fst (run_batches train_step (model (?S k)) train_data_loader))
    \<and> vls ! k = np_mean (fst (run_batches val_step
                      (snd (run_batches train_step (model (?S k)) train_data_loader))
                      val_data_loader))" using A by simp
  qed
  have cut: "\<And>k. k \<le> j \<Longrightarrow> loss_cut (?S k) = minimum_seen (take k vls)"
    using pre state_after_loss_cut[of train_step val_step m train_data_loader val_data_loader]
    by metis
  have c0: "counter (?S 0) = 0" by (simp add: state_after_0 init_state_def)
  have cnt: "\<And>k. k < j \<Longrightarrow> counter (?S (Suc k)) =
       (if np_less (vls ! k) (minimum_seen (take k vls)) then 0 else counter (?S k) + 1)"
  proof -
    fix k assume k: "k < j"
    then have kj: "k \<le> j" by simp
    have "counter (?S (Suc k)) =
       (if np_less (np_mean (fst (run_batches val_step
                      (snd (run_batches train_step (model (?S k)) train_data_loader))
                      val_data_loader))) (loss_cut (?S k)) then 0 else counter (?S k) + 1)"
      by (simp add: state_after_Suc epoch_body_fields)
    then show "counter (?S (Suc k)) =
       (if np_less (vls ! k) (minimum_seen (take k vls)) then 0 else counter (?S k) + 1)"
      using entry[OF k] cut[OF kj] by simp
  qed
  show ?thesis
    using j(1) j(2) j(3) j(4) len entry cut c0 cnt by auto
qed

theorem train_model_bookkeeping_witness:
  "train_model (\<lambda>m b. (b, Suc m)) (\<lambda>m b. (b, m)) (0::nat) [1, 3] [1] 5 True 2
     = ([Fin 2, Fin 2, Fin 2], [Fin 1, Fin 1, Fin 1])
   \<and> train_run (\<lambda>m b. (b, Suc m)) (\<lambda>m b. (b, m)) (0::nat) [1, 3] [1] 5 True 2
     = state_after (\<lambda>m b. (b, Suc m)) (\<lambda>m b. (b, m)) (0::nat) [1, 3] [1] 3
   \<and> counter (state_after (\<lambda>m b. (b, Suc m)) (\<lambda>m b. (b, m)) (0::nat) [1, 3] [1] 3) = 2
   \<and> counter (state_after (\<lambda>m b. (b, Suc m)) (\<lambda>m b. (b, m)) (0::nat) [1, 3] [1] 2) \<noteq> 2
   \<and> counter (state_after (\<lambda>m b. (b, Suc m)) (\<lambda>m b. (b, m)) (0::nat) [1, 3] [1] 1) \<noteq> 2
   \<and> loss_cut (state_after (\<lambda>m b. (b, Suc m)) (\<lambda>m b. (b, m)) (0::nat) [1, 3] [1] 3) = Fin 1"
proof -
  have ev: "train_model (\<lambda>m b. (b, Suc m)) (\<lambda>m b. (b, m)) (0::nat) [1, 3] [1] 5 True 2
     = ([Fin 2, Fin 2, Fin 2], [Fin 1, Fin 1, Fin 1])"
    by (simp add: train_model_def train_run_def init_state_def epoch_body_def
          eval_nat_numeral Let_def)
  have three: "length [Fin 2, Fin 2, Fin 2] = 3" by simp
  have ms: "minimum_seen (take 3 [Fin 1, Fin 1, Fin 1]) = Fin 1"
    by (simp add: minimum_seen_def)
  note t = train_model_bookkeeping[OF ev, unfolded three]
  have "(1::nat) < 3" "(2::nat) < 3" "(3::nat) \<le> 3" "(0::nat) < 1" "(0::nat) < 2" "(3::nat) < nat 5" by simp_all
  then show ?thesis using ev t ms by metis
qed

section \<open>Properties of the ensemble physics layer\<close>

lemma torch_clamp_spec: "torch_clamp x (- 20) 20 = spec_clamp x (- 20) 20"
  by (simp add: torch_clamp_def spec_clamp_def min_def max_def)

lemma torch_clamp_bounds: "\<bar>torch_clamp x (- 20) 20\<bar> \<le> 20"
  by (auto simp: torch_clamp_def min_def max_def abs_if)

lemma torch_clamp_id:
  assumes "\<bar>x\<bar> \<le> 20"
  shows "torch_clamp x (- 20) 20 = x"
proof -
  have "- 20 \<le> x" and "x \<le> 20" using assms by linarith+
  then show ?thesis by (simp add: torch_clamp_def max_absorb1 min_absorb1)
qed

lemma safe_sinh_spec: "safe_sinh x = spec_sinh x"
  by (simp add: safe_sinh_def spec_sinh_def torch_where_def torch_clamp_max_def)

lemma safe_cosh_spec: "safe_cosh x = spec_cosh x"
  by (simp add: safe_cosh_def spec_cosh_def torch_where_def torch_clamp_max_def)

lemma epsilon_pos: "0 < epsilon"
  by (simp add: epsilon_def)

lemma cosh_term_pos: "0 < safe_cosh x + epsilon"
proof -
  have "0 < safe_cosh x"
    by (simp add: safe_cosh_def torch_where_def)
  then show ?thesis using epsilon_pos by simp
qed

lemma CpLayer_forward_formula:
  "CpLayer_forward B C D E F T = Cp_formula B C D E F T"
proof -
  have e: "epsilon = 1 / 10 ^ 7" by (simp add: epsilon_def)
  show ?thesis
    unfolding CpLayer_forward_def Cp_formula_def Let_def torch_div_def
      torch_clamp_spec safe_sinh_spec safe_cosh_spec e
    by simp
qed

text \<open>
  Claim C3. \<open>CpLayer.forward(B, C, D, E, F, T)\<close> returns
  \<open>B + C*(u/(sinh(u)+eps))^2 + E*(v/(cosh(v)+eps))^2\<close> with \<open>eps = 1e-7\<close>,
  \<open>u = clamp(D/(T+eps), -20, 20)\<close>, \<open>v = clamp(F/(T+eps), -20, 20)\<close>, where \<open>sinh\<close> and
  \<open>cosh\<close> are replaced by \<open>sign(x)*exp(min(|x|,88))/2\<close> and \<open>exp(min(|x|,88))/2\<close>
  whenever \<open>|x| > 20\<close>; and \<open>GroupGAT_Ensemble.forward\<close> passes the outputs of its
  sub-models A, B, C, D, E, in that order, into the five coefficient slots, with the
  temperature \<open>T\<close> of the input.
\<close>

theorem CpLayer_closed_form:
  assumes "models ''A'' = Some mA" and "models ''B'' = Some mB" and "models ''C'' = Some mC"
    and "models ''D'' = Some mD" and "models ''E'' = Some mE"
  shows "CpLayer_forward B C D E F T = Cp_formula B C D E F T
    \<and> GroupGAT_Ensemble_forward models global_feats data =
        Inr (Cp_formula (mA data) (mB data) (mC data) (mD data) (mE data) (global_feats data))"
  using assms
  by (simp add: GroupGAT_Ensemble_forward_def CpLayer_forward_formula)

theorem CpLayer_closed_form_witness:
  "CpLayer_forward 1 2 3 4 5 299 = Cp_formula 1 2 3 4 5 299
   \<and> GroupGAT_Ensemble_forward
        [''A'' \<mapsto> (\<lambda>d. d), ''B'' \<mapsto> (\<lambda>d. 2 * d), ''C'' \<mapsto> (\<lambda>d. 3 * d),
         ''D'' \<mapsto> (\<lambda>d. 4 * d), ''E'' \<mapsto> (\<lambda>d. 5 * d)] (\<lambda>d. 299 * d) 1
      = Inr (Cp_formula 1 2 3 4 5 299)"
  using CpLayer_closed_form
     [of "[''A'' \<mapsto> (\<lambda>d. d), ''B'' \<mapsto> (\<lambda>d. 2 * d), ''C'' \<mapsto> (\<lambda>d. 3 * d),
          ''D'' \<mapsto> (\<lambda>d. 4 * d), ''E'' \<mapsto> (\<lambda>d. 5 * d)]"
         "\<lambda>d. d" "\<lambda>d. 2 * d" "\<lambda>d. 3 * d" "\<lambda>d. 4 * d" "\<lambda>d. 5 * d"
         1 2 3 4 5 299 "\<lambda>d. 299 * d" 1]
  by simp

text \<open>
  Claim C7. In \<open>CpLayer.forward\<close> no division can have a zero divisor, whatever the five
  coefficients and the temperature are: the epsilon offset keeps \<open>T + 1e-7\<close>,
  \<open>sinh(u) + 1e-7\<close> and \<open>cosh(v) + 1e-7\<close> away from zero.

  The offset moves the zero of the first two divisors, it does not remove it. At
  \<open>T = -1e-7\<close> the shifted temperature is zero, and both quotients \<open>D / T\<close>, \<open>F / T\<close>
  divide by it. (\<open>sinh_term_zero\<close> gives a zero of the second divisor at a positive
  temperature; the third divisor is positive, \<open>cosh_term_pos\<close>.)
\<close>

theorem CpLayer_division_by_zero:
  "- epsilon + epsilon = 0
   \<and> torch_div 0 (- epsilon + epsilon) = None
   \<and> CpLayer_forward 1 1 0 1 0 (- epsilon) = None"
  by (simp add: CpLayer_forward_def torch_div_def)

lemma sinh_term_zero:
  "safe_sinh (torch_clamp (- arsinh epsilon / ((1 - epsilon) + epsilon)) (- 20) 20) + epsilon = 0
   \<and> CpLayer_forward B C (- arsinh epsilon) E F (1 - epsilon) = None"
proof -
  have "0 < arsinh epsilon"
    using epsilon_pos by (simp only: arsinh_real_pos_iff)
  then have "0 \<le> arsinh epsilon" by (rule less_imp_le)
  moreover have "arsinh epsilon \<le> 20"
  proof -
    have a: "(1::real) + 20 \<le> exp 20" by (rule exp_ge_add_one_self)
    have b: "exp (- 20) \<le> (1::real)" by simp
    have "(20::real) \<le> exp 20 - exp (- 20)"
      using a b by linarith
    then have "(10::real) \<le> sinh 20"
      by (simp add: sinh_field_def)
    then have "sinh (arsinh epsilon) \<le> sinh (20::real)"
      by (simp add: epsilon_def)
    then show ?thesis by (simp only: sinh_real_le_iff)
  qed
  ultimately have b: "\<bar>- arsinh epsilon\<bar> \<le> 20" by simp
  then have c: "torch_clamp (- arsinh epsilon) (- 20) 20 = - arsinh epsilon"
    by (rule torch_clamp_id)
  have s: "safe_sinh (- arsinh epsilon) = - epsilon"
    using b by (simp add: safe_sinh_def torch_where_def)
  show ?thesis
    using c s epsilon_pos
    by (simp add: CpLayer_forward_def torch_div_def Let_def)
qed

section \<open>Properties of the prediction metrics\<close>

lemma np_sum_quotients:
  assumes "length target = length prediction" and "\<forall>y \<in> set target. y \<noteq> 0"
  shows "np_sum (map2 np_divide (map2 (\<lambda>t p. t - p) target prediction) target)
           = Some (sum_list (map2 (\<lambda>y f. (y - f) / y) target prediction))"
  using assms
  by (induction target prediction rule: list_induct2) (simp_all add: np_divide_def)

lemma sum_list_map2_times:
  "length xs = length ys \<Longrightarrow>
     sum_list (map2 (\<lambda>y f. g y f * (c::real)) xs ys) = sum_list (map2 g xs ys) * c"
  by (induction xs ys rule: list_induct2) (simp_all add: algebra_simps)

lemma pred_metric_mre_sum:
  assumes len: "length prediction = length target" and nz: "\<forall>y \<in> set target. y \<noteq> 0"
  shows "pred_metric sk prediction target (Name ''mre'')
           = Inr [''mre'' \<mapsto> Some (real (length target) * mean_relative_error prediction target)]"
proof -
  have len': "length target = length prediction" using len by simp
  have q: "np_binop np_divide (map2 (\<lambda>t p. t - p) target prediction) target
             = Inr (map2 np_divide (map2 (\<lambda>t p. t - p) target prediction) target)"
    using len by (simp add: np_binop_def)
  have s: "sum_list (map2 (\<lambda>y f. (y - f) / y * 100) target prediction)
             = sum_list (map2 (\<lambda>y f. (y - f) / y) target prediction) * 100"
    using sum_list_map2_times[OF len', of "\<lambda>y f. (y - f) / y" 100] by simp
  have m: "real (length target) * mean_relative_error prediction target
             = sum_list (map2 (\<lambda>y f. (y - f) / y) target prediction) * 100"
  proof (cases "target = []")
    case True
    then show ?thesis by (simp add: mean_relative_error_def)
  next
    case False
    then have "real (length target) \<noteq> 0" by simp
    then show ?thesis unfolding mean_relative_error_def s by simp
  qed
  have "pred_metric sk prediction target (Name ''mre'')
          = Inr [''mre'' \<mapsto> Some (sum_list (map2 (\<lambda>y f. (y - f) / y) target prediction) * 100)]"
    using len q np_sum_quotients[OF len' nz]
    by (simp add: pred_metric_def metric_case_def np_binop_def)
  then show ?thesis unfolding m .
qed

text \<open>
  Claim C8. For prediction and target arrays of the same length \<open>N\<close> with every target
  nonzero, the metric \<open>mre\<close> of \<open>pred_metric\<close> is the Mean Relative Error
  \<open>1/N * sum ((y_i - f(x_i)) / y_i * 100)\<close>.

  The code computes \<^verbatim>\<open>np.sum((target-prediction)/target)*100\<close> and never divides by
  \<open>N\<close>: it returns \<open>N\<close> times the Mean Relative Error (\<open>pred_metric_mre_sum\<close>). For the
  targets \<open>2, 4\<close> and the predictions \<open>1, 1\<close> it returns \<open>125\<close>, and the Mean Relative
  Error is \<open>62.5\<close>.
\<close>

theorem pred_metric_mre_not_mean:
  "pred_metric sk [1, 1] [2, 4] (Name ''mre'') = Inr [''mre'' \<mapsto> Some 125]
   \<and> mean_relative_error [1, 1] [2, 4] = 125 / 2"
  by (simp add: pred_metric_def metric_case_def np_binop_def np_divide_def
        mean_relative_error_def)

section \<open>Properties of the data sets and of the splitter\<close>

lemma DataSet_init_sample:
  "DataSet_init pickle_load rdkit_sample sample_featurizers None
      (Some [''CC'', ''CCO'']) (Some [1, 3]) None None None
   = Inr \<lparr>ds_root = ''./data'',
          ds_data =
            [\<lparr>data_x = [], data_edge_index = [], data_edge_attr = [], data_y = Some (- 1)\<rparr>,
             \<lparr>data_x = [], data_edge_index = [], data_edge_attr = [], data_y = Some 1\<rparr>],
          ds_smiles = Some [''CC'', ''CCO''],
          ds_target = Some [Some (- 1), Some 1],
          ds_global_features = None\<rparr>"
proof -
  have f: "filter_smiles rdkit_sample [''CC'', ''CCO''] [1::real, 3] None
             = Inr ([''CC'', ''CCO''], [1, 3])"
    by (simp add: filter_smiles_def rdkit_sample_def drops_of_element_def df_drop_def
          default_allowed_atoms_def)
  have s: "standardize_target [1, 3] = [Some (- 1), Some 1]"
    by (simp add: standardize_target_def np_std_def np_divide_def)
  have c: "construct_dataset rdkit_sample sample_featurizers [''CC'', ''CCO'']
             [Some (- 1), Some (1::real)]
           = Inr [\<lparr>data_x = [], data_edge_index = [], data_edge_attr = [], data_y = Some (- 1)\<rparr>,
             \<lparr>data_x = [], data_edge_index = [], data_edge_attr = [], data_y = Some 1\<rparr>]"
    by (simp add: construct_dataset_def rdkit_sample_def sample_featurizers_def)
  show ?thesis
    by (simp add: DataSet_init_def f s c)
qed

text \<open>
  Claim C6. The split fractions given to \<open>MakeGraphDataSet\<close> must sum to 1.0: a
  construction whose \<open>split_frac\<close> does not sum to 1.0 raises an error, one whose
  \<open>split_frac\<close> sums to 1.0 passes.

  The code asserts \<^verbatim>\<open>np.sum(self.split_frac)\<close>, the sum itself and not its equality
  with one: every nonzero sum passes. The fractions \<open>0.5, 0.25, 0.125\<close> sum to
  \<open>0.875\<close>, and the constructor returns the data set.
\<close>

theorem MakeGraphDataSet_accepts_bad_fractions:
  "sum_list [1 / 2, 1 / 4, 1 / 8 :: real] = 7 / 8
   \<and> MakeGraphDataSet_init pickle_load rdkit_sample sample_featurizers train_val_test_split
        None (Some [''CC'', ''CCO'']) (Some [1, 3]) None None False None
        (Some [1 / 2, 1 / 4, 1 / 8]) None
      = Inr \<lparr>ds_root = ''./data'',
          ds_data =
            [\<lparr>data_x = [], data_edge_index = [], data_edge_attr = [], data_y = Some (- 1)\<rparr>,
             \<lparr>data_x = [], data_edge_index = [], data_edge_attr = [], data_y = Some 1\<rparr>],
          ds_smiles = Some [''CC'', ''CCO''],
          ds_target = Some [Some (- 1), Some 1],
          ds_global_features = None,
          mg_custom_split = None, mg_split_type = ''random'',
          mg_split_frac = [1 / 2, 1 / 4, 1 / 8],
          mg_train = None, mg_test = None, mg_val = None\<rparr>"
  by (simp add: MakeGraphDataSet_init_def DataSet_init_sample)

text \<open>
  Claim C4. For every data set and every splitting strategy the splitter returns three
  disjoint subsets of the samples (train, validation, test) whose union is the data set;
  under the custom strategy, with a label array of values 0, 1, 2, the \<open>i\<close>-th component
  holds exactly the samples whose label is \<open>i\<close>.

  Under the custom strategy \<open>split_data\<close> returns nothing: with a label array given, its
  assertion evaluates \<^verbatim>\<open>len(self.data)\<close> in a function that has no \<^verbatim>\<open>self\<close>, and
  raises \<^verbatim>\<open>NameError\<close>, from \<open>split_data\<close> and from the constructor alike.
\<close>

theorem split_data_custom_raises:
  "split_data train_val_test_split
      [\<lparr>data_x = [], data_edge_index = [], data_edge_attr = [], data_y = Some (- 1)\<rparr>,
       \<lparr>data_x = [], data_edge_index = [], data_edge_attr = [], data_y = Some 1\<rparr>]
      (Some ''custom'') (Some [8 / 10, 1 / 10, 1 / 10]) (Some [0, 2])
     = Inl NameError
   \<and> MakeGraphDataSet_init pickle_load rdkit_sample sample_featurizers train_val_test_split
        None (Some [''CC'', ''CCO'']) (Some [1, 3]) None None True (Some ''custom'')
        None (Some [0, 2])
     = Inl NameError"
  by (simp add: MakeGraphDataSet_init_def DataSet_init_sample split_data_def self_data_def)

text \<open>
  Claim C5. Under the custom strategy \<open>split_data\<close> accepts the label array if and only
  if it is given and as long as the data set: an absent array, or one of another length,
  fails with the documented assertion error, and an array of the right length makes the
  call return the three partitions.

  An absent array fails the assertion. A given array never reaches the comparison of the
  lengths: whatever its length, the call raises \<^verbatim>\<open>NameError\<close> on \<^verbatim>\<open>self\<close>.
\<close>

theorem split_data_custom_never_accepts:
  "split_data train_val_test_split data (Some ''custom'') split_frac None
     = Inl AssertionError
   \<and> split_data train_val_test_split data (Some ''custom'') split_frac (Some custom_split)
     = Inl NameError"
  by (simp add: split_data_def self_data_def)

text \<open>
  Claim C10. For a \<open>MakeGraphDataSet\<close> constructed with \<open>split=True\<close> and a named
  splitting strategy, the components of the splitter's result (train, validation, test)
  are bound to the attributes \<open>train\<close>, \<open>test\<close> and \<open>val\<close> in this order: the
  attribute \<open>test\<close> holds the second component, the validation set, and the attribute
  \<open>val\<close> holds the third, the test set.
\<close>

theorem MakeGraphDataSet_split_binding:
  assumes init: "MakeGraphDataSet_init pickle_load MolFromSmiles fz train_val_test_split
        path smiles target global_features allowed_atoms True split_type split_frac
        custom_split = Inr obj"
    and named: "split_type \<noteq> Some ''custom''"
  shows "\<exists>cls tr va te.
       split_func (mg_split_type obj) = Some cls
     \<and> train_val_test_split cls (ds_data obj)
          (mg_split_frac obj ! 0) (mg_split_frac obj ! 1) (mg_split_frac obj ! 2)
         = Inr (tr, va, te)
     \<and> split_data train_val_test_split (ds_data obj) (Some (mg_split_type obj))
          (Some (mg_split_frac obj)) custom_split
         = Inr (Subset tr, Subset va, Subset te)
     \<and> mg_train obj = Some (Subset tr) \<and> mg_test obj = Some (Subset va)
     \<and> mg_val obj = Some (Subset te)"
proof -
  define st where "st = (case split_type of None \<Rightarrow> ''random'' | Some s \<Rightarrow> s)"
  define sf where "sf = (case split_frac of None \<Rightarrow> [8 / 10, 1 / 10, 1 / 10] | Some f \<Rightarrow> f)"
  have nc: "st \<noteq> ''custom''"
    using named by (cases split_type) (simp_all add: st_def)
  obtain ds where ds: "DataSet_init pickle_load MolFromSmiles fz path smiles target
      global_features allowed_atoms None = Inr ds"
    using init by (cases "DataSet_init pickle_load MolFromSmiles fz path smiles target
      global_features allowed_atoms None") (simp_all add: MakeGraphDataSet_init_def)
  from init ds obtain a b c where
    sd: "split_data train_val_test_split (ds_data ds) (Some st) (Some sf) custom_split
          = Inr (a, b, c)"
    and obj: "obj = \<lparr>ds_root = ds_root ds, ds_data = ds_data ds, ds_smiles = ds_smiles ds,
                          ds_target = ds_target ds,
                          ds_global_features = ds_global_features ds,
                          mg_custom_split = custom_split, mg_split_type = st,
                          mg_split_frac = sf,
                          mg_train = Some a, mg_test = Some b, mg_val = Some c\<rparr>"
    by (auto simp: MakeGraphDataSet_init_def Let_def st_def[symmetric] sf_def[symmetric]
          split: if_splits sum.splits prod.splits)
  from sd nc obtain cls tr va te where
    cls: "split_func st = Some cls"
    and call: "train_val_test_split cls (ds_data ds) (sf ! 0) (sf ! 1) (sf ! 2) = Inr (tr, va, te)"
    and parts: "a = Subset tr" "b = Subset va" "c = Subset te"
    by (auto simp: split_data_def split: option.splits if_splits sum.splits prod.splits)
  show ?thesis
    using cls call parts sd obj by simp
qed


theorem MakeGraphDataSet_split_binding_witness:
  "MakeGraphDataSet_init (\<lambda>p. Inr [sample_graph 1, sample_graph 2, sample_graph 3])
      rdkit_sample sample_featurizers
      (\<lambda>cls d f0 f1 f2. Inr (take 1 d, take 1 (drop 1 d), drop 2 d))
      (Some ''data.pickle'') None None None None True None None None
    = Inr \<lparr>ds_root = ''./data'',
          ds_data = [sample_graph 1, sample_graph 2, sample_graph 3],
          ds_smiles = None, ds_target = None, ds_global_features = None,
          mg_custom_split = None, mg_split_type = ''random'',
          mg_split_frac = [8 / 10, 1 / 10, 1 / 10],
          mg_train = Some (Subset [sample_graph 1]),
          mg_test = Some (Subset [sample_graph 2]),
          mg_val = Some (Subset [sample_graph 3])\<rparr>
   \<and> (\<lambda>cls d f0 f1 f2. Inr (take 1 d, take 1 (drop 1 d), drop 2 d))
        RandomSplitter [sample_graph 1, sample_graph 2, sample_graph 3] (8 / 10) (1 / 10) (1 / 10)
      = (Inr ([sample_graph 1], [sample_graph 2], [sample_graph 3])
           :: py_error + (samples \<times> samples \<times> samples))"
proof -
  let ?tvt = "(\<lambda>cls d f0 f1 f2. Inr (take 1 d, take 1 (drop 1 d), drop 2 d))
                :: split_call"
  let ?obj = "\<lparr>ds_root = ''./data'',
          ds_data = [sample_graph 1, sample_graph 2, sample_graph 3],
          ds_smiles = None, ds_target = None, ds_global_features = None,
          mg_custom_split = None, mg_split_type = ''random'',
          mg_split_frac = [8 / 10, 1 / 10, 1 / 10],
          mg_train = Some (Subset [sample_graph 1]),
          mg_test = Some (Subset [sample_graph 2]),
          mg_val = Some (Subset [sample_graph 3])\<rparr>"
  have ev: "MakeGraphDataSet_init (\<lambda>p. Inr [sample_graph 1, sample_graph 2, sample_graph 3])
      rdkit_sample sample_featurizers ?tvt
      (Some ''data.pickle'') None None None None True None None None = Inr ?obj"
    by (simp add: MakeGraphDataSet_init_def DataSet_init_def split_data_def split_func_def)
  have ne: "(None :: string option) \<noteq> Some ''custom''" by simp
  from MakeGraphDataSet_split_binding[OF ev ne] obtain cls tr va te where
    call: "?tvt cls (ds_data ?obj) (mg_split_frac ?obj ! 0) (mg_split_frac ?obj ! 1)
             (mg_split_frac ?obj ! 2) = Inr (tr, va, te)"
    and bound: "mg_train ?obj = Some (Subset tr)" "mg_test ?obj = Some (Subset va)"
      "mg_val ?obj = Some (Subset te)"
    by blast
  from bound have "tr = [sample_graph 1]" "va = [sample_graph 2]" "te = [sample_graph 3]"
    by simp_all
  with call have "?tvt RandomSplitter [sample_graph 1, sample_graph 2, sample_graph 3]
      (8 / 10) (1 / 10) (1 / 10) = Inr ([sample_graph 1], [sample_graph 2], [sample_graph 3])"
    by simp
  with ev show ?thesis by simp
qed

lemma construct_loop_targets:
  "construct_loop P fz target smiles i = Inr d \<Longrightarrow>
     map data_y d = take (length smiles) (drop i target)"
proof (induction smiles arbitrary: i d)
  case Nil
  then show ?case by simp
next
  case (Cons smile rest)
  from Cons.prems obtain d' where
    i: "i < length target"
    and rest: "construct_loop P fz target rest (Suc i) = Inr d'"
    and d: "map data_y d = target ! i # map data_y d'"
    by (auto split: option.splits sum.splits if_splits)
  from Cons.IH[OF rest] have
    ys: "map data_y d' = take (length rest) (drop (Suc i) target)" .
  have "target ! i # take (length rest) (drop (Suc i) target)
          = take (Suc (length rest)) (drop i target)"
    using i by (simp add: Cons_nth_drop_Suc[symmetric])
  then show ?case using d ys by simp
qed

lemma filter_smiles_lengths:
  "filter_smiles P smiles target aa = Inr (fs, ft) \<Longrightarrow> length fs = length ft"
  by (auto simp: filter_smiles_def Let_def split: if_splits sum.splits)

lemma standardize_target_length: "length (standardize_target ts) = length ts"
  by (simp add: standardize_target_def split: np_float.splits)

lemma np_mean_nonempty: "ts \<noteq> [] \<Longrightarrow> np_mean ts = Fin (mean ts)"
  by (cases ts) (simp_all add: mean_def)

lemma np_std_nonempty: "ts \<noteq> [] \<Longrightarrow> np_std ts = Fin (std_dev ts)"
  by (simp add: np_std_def np_mean_nonempty std_dev_def)

lemma sum_list_member_le:
  "(\<forall>x \<in> set xs. 0 \<le> f x) \<Longrightarrow> a \<in> set xs \<Longrightarrow> f a \<le> (sum_list (map f xs) :: real)"
proof (induction xs)
  case Nil
  then show ?case by simp
next
  case (Cons x xs)
  have nn: "0 \<le> sum_list (map f xs)"
    using Cons.prems(1) by (intro sum_list_nonneg) auto
  show ?case
  proof (cases "a = x")
    case True
    then show ?thesis using nn by simp
  next
    case False
    then have "f a \<le> sum_list (map f xs)"
      using Cons by auto
    moreover have "0 \<le> f x" using Cons.prems(1) by simp
    ultimately show ?thesis by simp
  qed
qed

lemma std_dev_pos:
  assumes "a \<in> set ts" and "b \<in> set ts" and "a \<noteq> b"
  shows "0 < std_dev ts"
proof -
  have ne: "ts \<noteq> []" using assms(1) by auto
  obtain c where c: "c \<in> set ts" "c \<noteq> mean ts"
    using assms by (cases "a = mean ts") auto
  have "0 < (c - mean ts) ^ 2" using c(2) by simp
  also have "\<dots> \<le> sum_list (map (\<lambda>x. (x - mean ts) ^ 2) ts)"
    using c(1) by (intro sum_list_member_le) auto
  finally have "0 < sum_list (map (\<lambda>x. (x - mean ts) ^ 2) ts)" .
  then have "0 < mean (map (\<lambda>x. (x - mean ts) ^ 2) ts)"
    using ne by (simp add: mean_def)
  then show ?thesis by (simp add: std_dev_def)
qed

lemma standardize_target_values:
  assumes "a \<in> set ts" and "b \<in> set ts" and "a \<noteq> b"
  shows "standardize_target ts = map (\<lambda>t. Some ((t - mean ts) / std_dev ts)) ts"
proof -
  have ne: "ts \<noteq> []" using assms(1) by auto
  have "std_dev ts \<noteq> 0" using std_dev_pos[OF assms] by simp
  then show ?thesis
    by (simp add: standardize_target_def np_mean_nonempty[OF ne] np_std_nonempty[OF ne]
          np_divide_def)
qed

lemma sum_list_shift_scale:
  "sum_list (map (\<lambda>t. (t - c) / d) ts) = (sum_list ts - real (length ts) * c) / (d::real)"
  by (induction ts) (simp_all add: add_divide_distrib diff_divide_distrib algebra_simps)

lemma mean_standardized:
  assumes "ts \<noteq> []"
  shows "mean (map (\<lambda>t. (t - mean ts) / d) ts) = 0"
proof -
  have "sum_list ts - real (length ts) * mean ts = 0"
    using assms by (simp add: mean_def)
  then show ?thesis
    by (simp add: mean_def sum_list_shift_scale)
qed

lemma sum_list_sq_scale:
  "sum_list (map (\<lambda>t. ((t - c) / d) ^ 2) ts) = sum_list (map (\<lambda>t. (t - c) ^ 2) ts) / (d::real) ^ 2"
  by (induction ts) (simp_all add: power_divide add_divide_distrib)

lemma std_dev_standardized:
  assumes "a \<in> set ts" and "b \<in> set ts" and "a \<noteq> b"
  shows "std_dev (map (\<lambda>t. (t - mean ts) / std_dev ts) ts) = 1"
proof -
  have ne: "ts \<noteq> []" using assms(1) by auto
  have pos: "0 < std_dev ts" by (rule std_dev_pos[OF assms])
  let ?z = "map (\<lambda>t. (t - mean ts) / std_dev ts) ts"
  have m0: "mean ?z = 0" by (rule mean_standardized[OF ne])
  have "mean (map (\<lambda>x. (x - mean ?z) ^ 2) ?z)
          = sum_list (map (\<lambda>t. ((t - mean ts) / std_dev ts) ^ 2) ts) / real (length ts)"
    unfolding m0 by (simp add: mean_def comp_def)
  also have "\<dots> = mean (map (\<lambda>t. (t - mean ts) ^ 2) ts) / (std_dev ts) ^ 2"
    by (simp add: sum_list_sq_scale mean_def)
  also have "(std_dev ts) ^ 2 = mean (map (\<lambda>t. (t - mean ts) ^ 2) ts)"
  proof -
    have "0 \<le> mean (map (\<lambda>t. (t - mean ts) ^ 2) ts)"
      unfolding mean_def by (intro divide_nonneg_nonneg sum_list_nonneg) auto
    then show ?thesis by (simp add: std_dev_def)
  qed
  also have "mean (map (\<lambda>t. (t - mean ts) ^ 2) ts) / mean (map (\<lambda>t. (t - mean ts) ^ 2) ts) = 1"
    using pos by (simp add: std_dev_def)
  finally have "mean (map (\<lambda>x. (x - mean ?z) ^ 2) ?z) = 1" .
  then show ?thesis by (simp add: std_dev_def)
qed

text \<open>
  Claim C9. For a \<open>DataSet\<close> constructed from a SMILES list and a target list (not
  loaded from a pickle file) whose filtered targets are not all equal, the targets of the
  graph samples are the filtered targets standardized to zero mean and unit variance:
  each one is the filtered target minus the mean of the filtered targets, divided by
  their standard deviation. (\<open>fs\<close> and \<open>ft\<close> are the filtered SMILES and targets.)
\<close>

theorem DataSet_targets_standardized:
  assumes init: "DataSet_init pickle_load MolFromSmiles fz None (Some smiles) (Some target)
                   global_features allowed_atoms root_dir = Inr ds"
    and filt: "filter_smiles MolFromSmiles smiles target allowed_atoms = Inr (fs, ft)"
    and neq: "a \<in> set ft" "b \<in> set ft" "a \<noteq> b"
  shows "map data_y (ds_data ds) = map (\<lambda>t. Some ((t - mean ft) / std_dev ft)) ft
    \<and> 0 < std_dev ft
    \<and> mean (map (\<lambda>t. (t - mean ft) / std_dev ft) ft) = 0
    \<and> std_dev (map (\<lambda>t. (t - mean ft) / std_dev ft) ft) = 1"
proof -
  have ne: "ft \<noteq> []" using neq(1) by auto
  from init filt have cd: "construct_dataset MolFromSmiles fz fs (standardize_target ft)
      = Inr (ds_data ds)"
    by (auto simp: DataSet_init_def Let_def split: sum.splits)
  have len: "length fs = length (standardize_target ft)"
    using filter_smiles_lengths[OF filt] by (simp add: standardize_target_length)
  from construct_loop_targets[OF cd[unfolded construct_dataset_def]] len
  have "map data_y (ds_data ds) = standardize_target ft" by simp
  then have "map data_y (ds_data ds) = map (\<lambda>t. Some ((t - mean ft) / std_dev ft)) ft"
    by (simp add: standardize_target_values[OF neq])
  then show ?thesis
    using std_dev_pos[OF neq] mean_standardized[OF ne] std_dev_standardized[OF neq]
    by simp
qed


theorem DataSet_targets_standardized_witness:
  "DataSet_init (\<lambda>p. Inl OSError) rdkit_sample sample_featurizers None
      (Some [''CC'', ''CCO'']) (Some [1, 3]) None None None
    = Inr \<lparr>ds_root = ''./data'',
          ds_data =
            [\<lparr>data_x = [], data_edge_index = [], data_edge_attr = [], data_y = Some (- 1)\<rparr>,
             \<lparr>data_x = [], data_edge_index = [], data_edge_attr = [], data_y = Some 1\<rparr>],
          ds_smiles = Some [''CC'', ''CCO''],
          ds_target = Some [Some (- 1), Some 1],
          ds_global_features = None\<rparr>
   \<and> [Some (- 1), Some 1] = map (\<lambda>t. Some ((t - mean [1, 3]) / std_dev [1, 3])) [1, 3]
   \<and> 0 < std_dev [1, 3]
   \<and> mean (map (\<lambda>t. (t - mean [1, 3]) / std_dev [1, 3]) [1, 3]) = 0
   \<and> std_dev (map (\<lambda>t. (t - mean [1, 3]) / std_dev [1, 3]) [1, 3]) = 1"
proof -
  have f: "filter_smiles rdkit_sample [''CC'', ''CCO''] [1::real, 3] None
             = Inr ([''CC'', ''CCO''], [1, 3])"
    by (simp add: filter_smiles_def rdkit_sample_def drops_of_element_def df_drop_def
          default_allowed_atoms_def)
  have m: "(1::real) \<in> set [1, 3]" "(3::real) \<in> set [1, 3]" "(1::real) \<noteq> 3"
    by simp_all
  let ?obj = "\<lparr>ds_root = ''./data'',
          ds_data =
            [\<lparr>data_x = [], data_edge_index = [], data_edge_attr = [], data_y = Some (- 1)\<rparr>,
             \<lparr>data_x = [], data_edge_index = [], data_edge_attr = [], data_y = Some (1::real)\<rparr>],
          ds_smiles = Some [''CC'', ''CCO''],
          ds_target = Some [Some (- 1), Some 1],
          ds_global_features = None\<rparr>"
  have ev: "DataSet_init (\<lambda>p. Inl OSError) rdkit_sample sample_featurizers None
      (Some [''CC'', ''CCO'']) (Some [1, 3]) None None None = Inr ?obj"
    by (rule DataSet_init_sample)
  note t = DataSet_targets_standardized[OF ev f m]
  have ys: "map data_y (ds_data ?obj) = [Some (- 1), Some 1]" by simp
  have b: "[Some (- 1), Some 1] = map (\<lambda>t. Some ((t - mean [1, 3]) / std_dev [1, 3])) [1, 3]"
    by (rule trans[OF ys[symmetric] t[THEN conjunct1]])
  show ?thesis
    by (intro conjI ev b t[THEN conjunct2, THEN conjunct1]
          t[THEN conjunct2, THEN conjunct2, THEN conjunct1]
          t[THEN conjunct2, THEN conjunct2, THEN conjunct2])
qed

end
